theory Spec2Isabelle
  imports Main "HOL-Library.AList" "HOL-Library.Sublist"
begin

section \<open>Values, exceptions and observable events\<close>

text \<open>
  The migrator of \<^verbatim>\<open>migracion_poliglota.py\<close> reads rows from PostgreSQL and sends
  Cypher statements to Neo4j. Both stores are outside the program, so a run is modelled
  by what it does to them: the list of events it emits, in order, together with the value
  it returns or the exception that ends it. A row is a list of scalar values of any
  type \<open>'v\<close>; a Python dictionary is an association list in insertion order.
\<close>

datatype valor = Nulo | Entero int | Texto string

datatype error =
    IndexError
  | KeyError string
  | StopIteration
  | ErrorPostgres string
  | JSONDecodeError
  | SystemExit nat

datatype resultado = MigracionAutomaticaCompletada | MigracionCompletada

text \<open>
  One constructor per \<^verbatim>\<open>print\<close> of the source, carrying the values the message
  interpolates.
\<close>

datatype mensaje =
    MsgMapeoNoEncontrado
  | MsgErrorConexion
  | MsgNeo4jLimpiadoCompletamente
  | MsgNodosCreados string nat
  | MsgRelacionesCreadas string nat
  | MsgIniciandoMigracion
  | MsgUsandoAutomatica
  | MsgLimpiando
  | MsgLimpiado
  | MsgFase1Entidades
  | MsgMigrando string string
  | MsgSinDatos string
  | MsgConsultaCypher string
  | MsgFase2Relaciones
  | MsgCreandoRelaciones string
  | MsgSinRelaciones string
  | MsgFase3Indices
  | MsgIndiceCreado string string
  | MsgFase4Estadisticas
  | MsgTotalNodos string int
  | MsgLineaVacia
  | MsgTotalRelaciones string int
  | MsgAutomaticaCompletada
  | MsgUsandoManual
  | MsgManualFase1Usuarios
  | MsgManualFase2Publicaciones
  | MsgManualFase3Amistades
  | MsgManualFase4Autores
  | MsgManualCompletada
  | MsgConexionesCerradas
  | MsgResultado resultado
  | MsgErrorMigracion error

type_synonym 'v registro = "(string \<times> 'v) list"

datatype 'v evento =
    Consulta string
  | Ejecutar string "'v registro"
  | Imprimir mensaje
  | CerrarConexiones

type_synonym ('v, 'a) accion = "'v evento list \<times> (error + 'a)"

definition puro :: "error + 'a \<Rightarrow> ('v, 'a) accion" where
  "puro r = ([], r)"

definition imprimir :: "mensaje \<Rightarrow> ('v, unit) accion" where
  "imprimir msg = ([Imprimir msg], Inr ())"

definition nada :: "('v, unit) accion" where
  "nada = ([], Inr ())"

text \<open>
  Sequencing as Python does it: the second step runs only when the first returned; an
  exception of the first step ends the sequence with the events emitted so far.
\<close>

definition luego :: "('v, 'a) accion \<Rightarrow> ('a \<Rightarrow> ('v, 'b) accion) \<Rightarrow> ('v, 'b) accion" where
  "luego m f =
     (case m of
        (evs, Inl err) \<Rightarrow> (evs, Inl err)
      | (evs, Inr x) \<Rightarrow> (case f x of (evs', r) \<Rightarrow> (evs @ evs', r)))"

definition ligar :: "error + 'a \<Rightarrow> ('a \<Rightarrow> error + 'b) \<Rightarrow> error + 'b" where
  "ligar r f = (case r of Inl err \<Rightarrow> Inl err | Inr x \<Rightarrow> f x)"

text \<open>A \<^verbatim>\<open>for\<close> loop whose body may raise: the first exception leaves the loop.\<close>

primrec para_cada :: "('a \<Rightarrow> ('v, unit) accion) \<Rightarrow> 'a list \<Rightarrow> ('v, unit) accion" where
  "para_cada f [] = nada"
| "para_cada f (x # xs) = luego (f x) (\<lambda>_. para_cada f xs)"

text \<open>A list comprehension whose element expression may raise.\<close>

primrec mapear :: "('a \<Rightarrow> error + 'b) \<Rightarrow> 'a list \<Rightarrow> error + 'b list" where
  "mapear f [] = Inr []"
| "mapear f (x # xs) = ligar (f x) (\<lambda>y. ligar (mapear f xs) (\<lambda>ys. Inr (y # ys)))"

text \<open>\<^verbatim>\<open>xs[i]\<close> for a non-negative literal \<open>i\<close>: out of range raises.\<close>

definition indice :: "'a list \<Rightarrow> nat \<Rightarrow> error + 'a" where
  "indice xs i = (if i < length xs then Inr (xs ! i) else Inl IndexError)"

text \<open>\<^verbatim>\<open>d[k]\<close> on a dictionary given as an association list.\<close>

definition clave :: "('k \<times> 'a) list \<Rightarrow> 'k \<Rightarrow> string \<Rightarrow> error + 'a" where
  "clave d k nombre_clave =
     (case map_of d k of None \<Rightarrow> Inl (KeyError nombre_clave) | Some v \<Rightarrow> Inr v)"

text \<open>\<^verbatim>\<open>sep.join(xs)\<close>.\<close>

fun str_join :: "string \<Rightarrow> string list \<Rightarrow> string" where
  "str_join sep [] = []"
| "str_join sep [x] = x"
| "str_join sep (x # y # ys) = x @ sep @ str_join sep (y # ys)"

definition salto :: string where
  "salto = ''\<newline>''"

definition sangria :: "nat \<Rightarrow> string" where
  "sangria n = replicate n (CHR '' '')"

section \<open>The mapping configuration\<close>

text \<open>
  \<^verbatim>\<open>mapeo_migracion.json\<close>: the keys the code reads. \<open>mapeo_campos\<close> is a JSON
  object, read into a dictionary that keeps the file's order; its keys are the source
  columns and its values the Neo4j property names. The three top-level keys may be
  missing; \<open>otras_claves\<close> are the top-level keys the code never reads.
\<close>

record entidad =
  nombre :: string
  etiqueta_neo4j :: string
  consulta_sql :: string
  mapeo_campos :: "(string \<times> string) list"

record relacion =
  nombre_relacion :: string
  tipo_relacion :: string
  consulta_sql_relacion :: string
  nodo_origen :: string
  nodo_destino :: string

record opciones =
  limpiar_neo4j_antes :: bool
  crear_indices :: bool
  modo_debug :: bool

record mapeo_migracion =
  entidades :: "entidad list option"
  relaciones :: "relacion list option"
  opciones_mapeo :: "opciones option"
  otras_claves :: "string list"

datatype archivo_mapeo = Ausente | Malformado | Contenido mapeo_migracion

text \<open>
  Lines 44-50: a missing file is caught and gives \<^verbatim>\<open>None\<close>; a file that is not JSON
  raises at import time; anything else is taken as it is.
\<close>

definition cargar_mapeo :: "archivo_mapeo \<Rightarrow> ('v, mapeo_migracion option) accion" where
  "cargar_mapeo archivo =
     (case archivo of
        Ausente \<Rightarrow> ([Imprimir MsgMapeoNoEncontrado], Inr None)
      | Malformado \<Rightarrow> ([], Inl JSONDecodeError)
      | Contenido m \<Rightarrow> ([], Inr (Some m)))"

text \<open>Truth value of the loaded object: \<^verbatim>\<open>None\<close> and the empty dictionary are false.\<close>

definition verdadero :: "mapeo_migracion option \<Rightarrow> bool" where
  "verdadero M =
     (case M of
        None \<Rightarrow> False
      | Some m \<Rightarrow> entidades m \<noteq> None \<or> relaciones m \<noteq> None
                    \<or> opciones_mapeo m \<noteq> None \<or> otras_claves m \<noteq> [])"

text \<open>\<^verbatim>\<open>MAPEO_MIGRACION.get('opciones', {})\<close>, each option read with default False.\<close>

definition obtener_opciones :: "mapeo_migracion \<Rightarrow> opciones" where
  "obtener_opciones m =
     (case opciones_mapeo m of
        None \<Rightarrow> \<lparr>limpiar_neo4j_antes = False, crear_indices = False, modo_debug = False\<rparr>
      | Some op \<Rightarrow> op)"

section \<open>The environment of a run\<close>

text \<open>
  \<open>postgres\<close> is what the source database answers to a query: rows, or an exception
  of the driver. \<open>neo4j_total\<close> is the count the graph store returns to a counting
  statement. \<open>conexion_falla\<close> says whether opening the two connections raises, and
  \<open>borrar_al_iniciar\<close> is the key of \<^verbatim>\<open>configuracion.json\<close>.
\<close>

record 'v entorno =
  postgres :: "string \<Rightarrow> error + 'v list list"
  neo4j_total :: "string \<Rightarrow> int"
  conexion_falla :: bool
  borrar_al_iniciar :: bool

section \<open>The methods of MigradorPoliglota\<close>

text \<open>
  A call of \<^verbatim>\<open>run\<close>: the statement and its parameters are recorded. The graph store
  is taken to accept every statement. Runs in which the driver raises (a rejected
  statement, a lost connection, a parameter name that clashes with an argument of
  \<^verbatim>\<open>run\<close>) are outside this model.
\<close>

definition ejecutar :: "string \<Rightarrow> 'v registro \<Rightarrow> ('v, unit) accion" where
  "ejecutar consulta registro = ([Ejecutar consulta registro], Inr ())"

definition limpiar_neo4j :: "('v, unit) accion" where
  "limpiar_neo4j =
     luego (ejecutar ''MATCH (n) DETACH DELETE n'' [])
       (\<lambda>_. imprimir MsgNeo4jLimpiadoCompletamente)"

definition migrador_init :: "'v entorno \<Rightarrow> ('v, unit) accion" where
  "migrador_init ent =
     (if conexion_falla ent
      then luego (imprimir MsgErrorConexion) (\<lambda>_. puro (Inl (SystemExit 1)))
      else if borrar_al_iniciar ent then limpiar_neo4j else nada)"

definition obtener_datos_postgresql :: "'v entorno \<Rightarrow> string \<Rightarrow> ('v, 'v list list) accion" where
  "obtener_datos_postgresql ent consulta = ([Consulta consulta], postgres ent consulta)"

definition crear_nodos_neo4j :: "string \<Rightarrow> 'v registro list \<Rightarrow> string \<Rightarrow> ('v, unit) accion" where
  "crear_nodos_neo4j consulta_cypher registros etiqueta =
     luego (para_cada (ejecutar consulta_cypher) registros)
       (\<lambda>_. imprimir (MsgNodosCreados etiqueta (length registros)))"

definition crear_relaciones_neo4j :: "string \<Rightarrow> 'v registro list \<Rightarrow> string \<Rightarrow> ('v, unit) accion" where
  "crear_relaciones_neo4j consulta_cypher registros tipo =
     luego (para_cada (ejecutar consulta_cypher) registros)
       (\<lambda>_. imprimir (MsgRelacionesCreadas tipo (length registros)))"

subsection \<open>Automatic migration: rows to records\<close>

text \<open>
  Lines 196-206. For each row a fresh dictionary is filled, one assignment per key of
  \<open>mapeo\<close> in order: \<^verbatim>\<open>registro[mapeo[campo_sql]] = fila[i]\<close>. An assignment to a
  name already present overwrites its value in place.
\<close>

fun llenar_registro ::
  "(string \<times> string) list \<Rightarrow> 'v list \<Rightarrow> (nat \<times> string) list \<Rightarrow> 'v registro \<Rightarrow> error + 'v registro" where
  "llenar_registro mapeo fila [] registro = Inr registro"
| "llenar_registro mapeo fila ((i, campo_sql) # resto) registro =
     ligar (clave mapeo campo_sql campo_sql) (\<lambda>campo_neo4j.
     ligar (indice fila i) (\<lambda>v.
       llenar_registro mapeo fila resto (AList.update campo_neo4j v registro)))"

definition convertir_fila :: "(string \<times> string) list \<Rightarrow> 'v list \<Rightarrow> error + 'v registro" where
  "convertir_fila mapeo fila =
     (let campos_sql = map fst mapeo
      in llenar_registro mapeo fila (enumerate 0 campos_sql) [])"

definition convertir_datos :: "(string \<times> string) list \<Rightarrow> 'v list list \<Rightarrow> error + 'v registro list" where
  "convertir_datos mapeo datos = mapear (convertir_fila mapeo) datos"

subsection \<open>Automatic migration: the node statement\<close>

text \<open>Lines 208-218.\<close>

definition asignacion :: "string \<Rightarrow> string" where
  "asignacion campo = ''n.'' @ campo @ '' = $'' @ campo"

definition generar_consulta_nodos :: "string \<Rightarrow> (string \<times> string) list \<Rightarrow> error + string" where
  "generar_consulta_nodos etiqueta mapeo =
     (let campos_neo4j = map snd mapeo
      in ligar (indice campos_neo4j 0) (\<lambda>id_campo.
           (let campos_set = map asignacion campos_neo4j
            in Inr (salto @ sangria 20 @ ''MERGE (n:'' @ etiqueta @ '' {'' @ id_campo
                    @ '': $'' @ id_campo @ ''})''
                    @ salto @ sangria 20 @ ''SET '' @ str_join '', '' campos_set
                    @ salto @ sangria 16))))"

subsection \<open>Automatic migration: relationship records and statement\<close>

text \<open>Lines 249-256.\<close>

definition registro_relacion :: "'v list \<Rightarrow> error + 'v registro" where
  "registro_relacion fila =
     ligar (indice fila 0) (\<lambda>origen.
     ligar (indice fila 1) (\<lambda>destino.
       Inr [(''id_origen'', origen), (''id_destino'', destino)]))"

text \<open>Lines 260-272. \<^verbatim>\<open>next\<close> on a generator with no element raises StopIteration.\<close>

definition buscar_entidad :: "entidad list \<Rightarrow> string \<Rightarrow> error + entidad" where
  "buscar_entidad ents etiqueta =
     (case find (\<lambda>e. etiqueta_neo4j e = etiqueta) ents of
        None \<Rightarrow> Inl StopIteration
      | Some e \<Rightarrow> Inr e)"

definition generar_consulta_relacion :: "entidad list \<Rightarrow> relacion \<Rightarrow> error + string" where
  "generar_consulta_relacion ents r =
     ligar (buscar_entidad ents (nodo_origen r)) (\<lambda>nodo_origen_config.
     ligar (buscar_entidad ents (nodo_destino r)) (\<lambda>nodo_destino_config.
     ligar (indice (map snd (mapeo_campos nodo_origen_config)) 0) (\<lambda>campo_id_origen.
     ligar (indice (map snd (mapeo_campos nodo_destino_config)) 0) (\<lambda>campo_id_destino.
       Inr (salto @ sangria 20 @ ''MATCH (origen:'' @ nodo_origen r @ '' {'' @ campo_id_origen
              @ '': $id_origen})''
            @ salto @ sangria 20 @ ''MATCH (destino:'' @ nodo_destino r @ '' {''
              @ campo_id_destino @ '': $id_destino})''
            @ salto @ sangria 20 @ ''MERGE (origen)-[:'' @ tipo_relacion r @ '']->(destino)''
            @ salto @ sangria 16)))))"

subsection \<open>Automatic migration: the phases\<close>

text \<open>The body of the entity loop, lines 183-229; \<^verbatim>\<open>continue\<close> ends the body.\<close>

definition migrar_entidad :: "'v entorno \<Rightarrow> opciones \<Rightarrow> entidad \<Rightarrow> ('v, unit) accion" where
  "migrar_entidad ent op e =
     luego (imprimir (MsgMigrando (nombre e) (etiqueta_neo4j e))) (\<lambda>_.
     luego (obtener_datos_postgresql ent (consulta_sql e)) (\<lambda>datos.
       if datos = [] then imprimir (MsgSinDatos (nombre e))
       else
         luego (puro (convertir_datos (mapeo_campos e) datos)) (\<lambda>datos_dict.
         luego (puro (generar_consulta_nodos (etiqueta_neo4j e) (mapeo_campos e))) (\<lambda>consulta.
         luego (if modo_debug op then imprimir (MsgConsultaCypher consulta) else nada) (\<lambda>_.
           crear_nodos_neo4j consulta datos_dict (etiqueta_neo4j e))))))"

text \<open>
  The body of the relationship loop, lines 236-283. The source reads
  \<^verbatim>\<open>MAPEO_MIGRACION['entidades']\<close> again inside the body; the mapping does not change
  during a run and the first phase has read that key before any relationship is reached,
  so the list is passed in as \<open>ents\<close>.
\<close>

definition migrar_relacion :: "'v entorno \<Rightarrow> opciones \<Rightarrow> entidad list \<Rightarrow> relacion \<Rightarrow> ('v, unit) accion" where
  "migrar_relacion ent op ents r =
     luego (imprimir (MsgCreandoRelaciones (tipo_relacion r))) (\<lambda>_.
     luego (obtener_datos_postgresql ent (consulta_sql_relacion r)) (\<lambda>datos.
       if datos = [] then imprimir (MsgSinRelaciones (nombre_relacion r))
       else
         luego (puro (mapear registro_relacion datos)) (\<lambda>datos_dict.
         luego (puro (generar_consulta_relacion ents r)) (\<lambda>consulta.
         luego (if modo_debug op then imprimir (MsgConsultaCypher consulta) else nada) (\<lambda>_.
           crear_relaciones_neo4j consulta datos_dict (tipo_relacion r))))))"

definition fase_limpieza :: "opciones \<Rightarrow> ('v, unit) accion" where
  "fase_limpieza op =
     (if limpiar_neo4j_antes op
      then luego (imprimir MsgLimpiando) (\<lambda>_.
           luego (ejecutar ''MATCH (n) DETACH DELETE n'' []) (\<lambda>_.
           imprimir MsgLimpiado))
      else nada)"

definition leer_entidades :: "mapeo_migracion \<Rightarrow> error + entidad list" where
  "leer_entidades m =
     (case entidades m of None \<Rightarrow> Inl (KeyError ''entidades'') | Some ents \<Rightarrow> Inr ents)"

definition leer_relaciones :: "mapeo_migracion \<Rightarrow> error + relacion list" where
  "leer_relaciones m =
     (case relaciones m of None \<Rightarrow> Inl (KeyError ''relaciones'') | Some rels \<Rightarrow> Inr rels)"

definition fase_entidades :: "'v entorno \<Rightarrow> mapeo_migracion \<Rightarrow> ('v, unit) accion" where
  "fase_entidades ent m =
     luego (imprimir MsgFase1Entidades) (\<lambda>_.
     luego (puro (leer_entidades m)) (\<lambda>ents.
       para_cada (migrar_entidad ent (obtener_opciones m)) ents))"

definition fase_relaciones :: "'v entorno \<Rightarrow> mapeo_migracion \<Rightarrow> ('v, unit) accion" where
  "fase_relaciones ent m =
     luego (imprimir MsgFase2Relaciones) (\<lambda>_.
     luego (puro (leer_relaciones m)) (\<lambda>rels.
     luego (puro (leer_entidades m)) (\<lambda>ents.
       para_cada (migrar_relacion ent (obtener_opciones m) ents) rels)))"

text \<open>
  Lines 285-297. The first property name is read outside the \<^verbatim>\<open>try\<close>, so an empty
  field map raises here. The \<^verbatim>\<open>try\<close> guards the statement alone; since the store
  accepts every statement, its warning branch (lines 296-297) is never taken.
\<close>

definition crear_indice :: "entidad \<Rightarrow> ('v, unit) accion" where
  "crear_indice e =
     luego (puro (indice (map snd (mapeo_campos e)) 0)) (\<lambda>id_campo.
     luego (ejecutar (''CREATE INDEX IF NOT EXISTS FOR (n:'' @ etiqueta_neo4j e
                       @ '') ON (n.'' @ id_campo @ '')'') []) (\<lambda>_.
       imprimir (MsgIndiceCreado (etiqueta_neo4j e) id_campo)))"

definition fase_indices :: "mapeo_migracion \<Rightarrow> ('v, unit) accion" where
  "fase_indices m =
     (if crear_indices (obtener_opciones m)
      then luego (imprimir MsgFase3Indices) (\<lambda>_.
           luego (puro (leer_entidades m)) (\<lambda>ents.
             para_cada crear_indice ents))
      else nada)"

text \<open>Lines 299-312.\<close>

definition contar_nodos :: "'v entorno \<Rightarrow> entidad \<Rightarrow> ('v, unit) accion" where
  "contar_nodos ent e =
     (let consulta = ''MATCH (n:'' @ etiqueta_neo4j e @ '') RETURN count(n) as total''
      in luego (ejecutar consulta []) (\<lambda>_.
           imprimir (MsgTotalNodos (etiqueta_neo4j e) (neo4j_total ent consulta))))"

definition contar_relaciones :: "'v entorno \<Rightarrow> relacion \<Rightarrow> ('v, unit) accion" where
  "contar_relaciones ent r =
     (let consulta = ''MATCH ()-[r:'' @ tipo_relacion r @ '']->() RETURN count(r) as total''
      in luego (ejecutar consulta []) (\<lambda>_.
           imprimir (MsgTotalRelaciones (tipo_relacion r) (neo4j_total ent consulta))))"

definition fase_estadisticas :: "'v entorno \<Rightarrow> mapeo_migracion \<Rightarrow> ('v, unit) accion" where
  "fase_estadisticas ent m =
     luego (imprimir MsgFase4Estadisticas) (\<lambda>_.
     luego (puro (leer_entidades m)) (\<lambda>ents.
     luego (para_cada (contar_nodos ent) ents) (\<lambda>_.
     luego (imprimir MsgLineaVacia) (\<lambda>_.
     luego (puro (leer_relaciones m)) (\<lambda>rels.
       para_cada (contar_relaciones ent) rels)))))"

definition ejecutar_migracion_automatica :: "'v entorno \<Rightarrow> mapeo_migracion \<Rightarrow> ('v, resultado) accion" where
  "ejecutar_migracion_automatica ent m =
     luego (imprimir MsgUsandoAutomatica) (\<lambda>_.
     luego (fase_limpieza (obtener_opciones m)) (\<lambda>_.
     luego (fase_entidades ent m) (\<lambda>_.
     luego (fase_relaciones ent m) (\<lambda>_.
     luego (fase_indices m) (\<lambda>_.
     luego (fase_estadisticas ent m) (\<lambda>_.
     luego (imprimir MsgAutomaticaCompletada) (\<lambda>_.
       puro (Inr MigracionAutomaticaCompletada))))))))"

subsection \<open>Manual migration\<close>

text \<open>Lines 317-454: four fixed phases, each a query, a conversion and a write.\<close>

definition sql_usuarios :: string where
  "sql_usuarios = ''SELECT id_usuario as id, nombre, email FROM usuarios''"

definition sql_publicaciones :: string where
  "sql_publicaciones =
     ''SELECT id_publicacion as id, texto_contenido as texto FROM publicaciones''"

definition sql_amistades :: string where
  "sql_amistades =
     ''SELECT usuario_solicitante_id as id1, usuario_receptor_id as id2 '' @ salto
     @ sangria 19 @ ''FROM amistades WHERE estado = '' @ [CHR 0x27] @ ''ACEPTADA''
     @ [CHR 0x27]"

definition sql_publicaciones_autor :: string where
  "sql_publicaciones_autor =
     ''SELECT autor_id as autor, id_publicacion as post FROM publicaciones''"

definition consulta_usuarios :: string where
  "consulta_usuarios =
     salto @ sangria 16 @ ''MERGE (persona:Persona {id_sql: $id}) ''
     @ salto @ sangria 16 @ ''SET persona.nombre = $nombre, persona.email = $email''
     @ salto @ sangria 12"

definition consulta_posts :: string where
  "consulta_posts =
     salto @ sangria 16 @ ''MERGE (post:Post {id_sql: $id}) ''
     @ salto @ sangria 16 @ ''SET post.texto = $texto''
     @ salto @ sangria 12"

definition consulta_amistad :: string where
  "consulta_amistad =
     salto @ sangria 16 @ ''MATCH (persona1:Persona {id_sql: $id1})''
     @ salto @ sangria 16 @ ''MATCH (persona2:Persona {id_sql: $id2})''
     @ salto @ sangria 16 @ ''MERGE (persona1)-[:AMIGO_DE]->(persona2)''
     @ salto @ sangria 12"

definition consulta_publico :: string where
  "consulta_publico =
     salto @ sangria 16 @ ''MATCH (persona:Persona {id_sql: $autor})''
     @ salto @ sangria 16 @ ''MATCH (post:Post {id_sql: $post})''
     @ salto @ sangria 16 @ ''MERGE (persona)-[:PUBLICO]->(post)''
     @ salto @ sangria 12"

definition registro_usuario :: "'v list \<Rightarrow> error + 'v registro" where
  "registro_usuario usuario =
     ligar (indice usuario 0) (\<lambda>a.
     ligar (indice usuario 1) (\<lambda>b.
     ligar (indice usuario 2) (\<lambda>c.
       Inr [(''id'', a), (''nombre'', b), (''email'', c)])))"

definition registro_publicacion :: "'v list \<Rightarrow> error + 'v registro" where
  "registro_publicacion post =
     ligar (indice post 0) (\<lambda>a.
     ligar (indice post 1) (\<lambda>b.
       Inr [(''id'', a), (''texto'', b)]))"

definition registro_amistad :: "'v list \<Rightarrow> error + 'v registro" where
  "registro_amistad amistad =
     ligar (indice amistad 0) (\<lambda>a.
     ligar (indice amistad 1) (\<lambda>b.
       Inr [(''id1'', a), (''id2'', b)]))"

definition registro_autor :: "'v list \<Rightarrow> error + 'v registro" where
  "registro_autor pub =
     ligar (indice pub 0) (\<lambda>a.
     ligar (indice pub 1) (\<lambda>b.
       Inr [(''autor'', a), (''post'', b)]))"

definition manual_fase1 :: "'v entorno \<Rightarrow> ('v, unit) accion" where
  "manual_fase1 ent =
     luego (imprimir MsgManualFase1Usuarios) (\<lambda>_.
     luego (obtener_datos_postgresql ent sql_usuarios) (\<lambda>usuarios.
     luego (puro (mapear registro_usuario usuarios)) (\<lambda>usuarios_dict.
       crear_nodos_neo4j consulta_usuarios usuarios_dict ''Persona'')))"

definition manual_fase2 :: "'v entorno \<Rightarrow> ('v, unit) accion" where
  "manual_fase2 ent =
     luego (imprimir MsgManualFase2Publicaciones) (\<lambda>_.
     luego (obtener_datos_postgresql ent sql_publicaciones) (\<lambda>publicaciones.
     luego (puro (mapear registro_publicacion publicaciones)) (\<lambda>publicaciones_dict.
       crear_nodos_neo4j consulta_posts publicaciones_dict ''Post'')))"

definition manual_fase3 :: "'v entorno \<Rightarrow> ('v, unit) accion" where
  "manual_fase3 ent =
     luego (imprimir MsgManualFase3Amistades) (\<lambda>_.
     luego (obtener_datos_postgresql ent sql_amistades) (\<lambda>amistades.
     luego (puro (mapear registro_amistad amistades)) (\<lambda>amistades_dict.
       crear_relaciones_neo4j consulta_amistad amistades_dict ''AMIGO_DE'')))"

definition manual_fase4 :: "'v entorno \<Rightarrow> ('v, unit) accion" where
  "manual_fase4 ent =
     luego (imprimir MsgManualFase4Autores) (\<lambda>_.
     luego (obtener_datos_postgresql ent sql_publicaciones_autor) (\<lambda>publicaciones_autor.
     luego (puro (mapear registro_autor publicaciones_autor)) (\<lambda>publicaciones_autor_dict.
       crear_relaciones_neo4j consulta_publico publicaciones_autor_dict ''PUBLICO'')))"

definition ejecutar_migracion_manual :: "'v entorno \<Rightarrow> ('v, resultado) accion" where
  "ejecutar_migracion_manual ent =
     luego (imprimir MsgUsandoManual) (\<lambda>_.
     luego (manual_fase1 ent) (\<lambda>_.
     luego (manual_fase2 ent) (\<lambda>_.
     luego (manual_fase3 ent) (\<lambda>_.
     luego (manual_fase4 ent) (\<lambda>_.
     luego (imprimir MsgManualCompletada) (\<lambda>_.
       puro (Inr MigracionCompletada)))))))"

subsection \<open>Mode selection and the console entry point\<close>

text \<open>Lines 144-159: \<^verbatim>\<open>if MAPEO_MIGRACION:\<close> tests the truth value of the loaded object.\<close>

definition ejecutar_migracion :: "'v entorno \<Rightarrow> mapeo_migracion option \<Rightarrow> ('v, resultado) accion" where
  "ejecutar_migracion ent M =
     luego (imprimir MsgIniciandoMigracion) (\<lambda>_.
       if verdadero M
       then (case M of
               Some m \<Rightarrow> ejecutar_migracion_automatica ent m
             | None \<Rightarrow> ejecutar_migracion_manual ent)
       else ejecutar_migracion_manual ent)"

definition cerrar_conexiones :: "'v evento list" where
  "cerrar_conexiones = [CerrarConexiones, Imprimir MsgConexionesCerradas]"

text \<open>
  Lines 539-554, the console branch. The result is the trace and the exit code of the
  process. \<^verbatim>\<open>sys.exit\<close> raises SystemExit, which \<^verbatim>\<open>except Exception\<close> does not
  catch; every other exception is caught and printed, and the script then runs to its
  end. The connections are closed when the constructor had returned.
\<close>

definition main_consola :: "'v entorno \<Rightarrow> mapeo_migracion option \<Rightarrow> 'v evento list \<times> nat" where
  "main_consola ent M =
     (case migrador_init ent of
        (evs, Inl err) \<Rightarrow>
          (case err of
             SystemExit n \<Rightarrow> (evs, n)
           | _ \<Rightarrow> (evs @ [Imprimir (MsgErrorMigracion err)], 0))
      | (evs, Inr _) \<Rightarrow>
          (case luego (ejecutar_migracion ent M) (\<lambda>res. imprimir (MsgResultado res)) of
             (evs', Inl err) \<Rightarrow>
               (case err of
                  SystemExit n \<Rightarrow> (evs @ evs' @ cerrar_conexiones, n)
                | _ \<Rightarrow> (evs @ evs' @ [Imprimir (MsgErrorMigracion err)] @ cerrar_conexiones, 0))
           | (evs', Inr _) \<Rightarrow> (evs @ evs' @ cerrar_conexiones, 0)))"

text \<open>The module as a script without PyQt5: the mapping is loaded, then the console branch runs.\<close>

definition programa :: "'v entorno \<Rightarrow> archivo_mapeo \<Rightarrow> 'v evento list \<times> nat" where
  "programa ent archivo =
     (case cargar_mapeo archivo of
        (evs, Inl err) \<Rightarrow> (evs, 1)
      | (evs, Inr M) \<Rightarrow> (case main_consola ent M of (evs', codigo) \<Rightarrow> (evs @ evs', codigo)))"

section \<open>The order of a declarative run, as the specification words it\<close>

text \<open>
  The specification's sequence of phases: clearing (when configured), then every entity
  in declaration order, then every relationship in declaration order, then indexing and
  reporting. Each unit contributes the events of its own loop body.
\<close>

definition entidades_declaradas :: "mapeo_migracion \<Rightarrow> entidad list" where
  "entidades_declaradas m = (case entidades m of None \<Rightarrow> [] | Some ents \<Rightarrow> ents)"

definition relaciones_declaradas :: "mapeo_migracion \<Rightarrow> relacion list" where
  "relaciones_declaradas m = (case relaciones m of None \<Rightarrow> [] | Some rels \<Rightarrow> rels)"

definition plan_limpieza :: "opciones \<Rightarrow> 'v evento list" where
  "plan_limpieza op =
     (if limpiar_neo4j_antes op
      then [Imprimir MsgLimpiando, Ejecutar ''MATCH (n) DETACH DELETE n'' [], Imprimir MsgLimpiado]
      else [])"

definition plan_entidades :: "'v entorno \<Rightarrow> mapeo_migracion \<Rightarrow> 'v evento list" where
  "plan_entidades ent m =
     Imprimir MsgFase1Entidades
     # concat (map (\<lambda>e. fst (migrar_entidad ent (obtener_opciones m) e)) (entidades_declaradas m))"

definition plan_relaciones :: "'v entorno \<Rightarrow> mapeo_migracion \<Rightarrow> 'v evento list" where
  "plan_relaciones ent m =
     Imprimir MsgFase2Relaciones
     # concat (map (\<lambda>r. fst (migrar_relacion ent (obtener_opciones m) (entidades_declaradas m) r))
                (relaciones_declaradas m))"

definition plan_automatico :: "'v entorno \<Rightarrow> mapeo_migracion \<Rightarrow> 'v evento list" where
  "plan_automatico ent m =
     Imprimir MsgUsandoAutomatica
     # plan_limpieza (obtener_opciones m)
     @ plan_entidades ent m
     @ plan_relaciones ent m
     @ fst (fase_indices m)
     @ fst (fase_estadisticas ent m)
     @ [Imprimir MsgAutomaticaCompletada]"

text \<open>
  An action follows a plan when its trace is a prefix of the plan and, if the action
  returns, its trace is the whole plan.
\<close>

definition sigue :: "('v, 'a) accion \<Rightarrow> 'v evento list \<Rightarrow> bool" where
  "sigue a p = (prefix (fst a) p \<and> (case snd a of Inl _ \<Rightarrow> True | Inr _ \<Rightarrow> fst a = p))"

section \<open>A sample configuration and source database\<close>

definition ej_persona :: entidad where
  "ej_persona =
     \<lparr>nombre = ''usuarios'', etiqueta_neo4j = ''Person'',
      consulta_sql = ''SELECT id,name,email FROM users'',
      mapeo_campos = [(''id'', ''id''), (''name'', ''name''), (''email'', ''email'')]\<rparr>"

definition ej_post :: entidad where
  "ej_post =
     \<lparr>nombre = ''publicaciones'', etiqueta_neo4j = ''Post'',
      consulta_sql = ''SELECT id,texto FROM posts'',
      mapeo_campos = [(''id'', ''id''), (''texto'', ''text'')]\<rparr>"

definition ej_sin_campos :: entidad where
  "ej_sin_campos =
     \<lparr>nombre = ''etiquetas'', etiqueta_neo4j = ''Tag'',
      consulta_sql = ''SELECT id FROM tags'',
      mapeo_campos = []\<rparr>"

definition ej_amistad :: relacion where
  "ej_amistad =
     \<lparr>nombre_relacion = ''amistades'', tipo_relacion = ''FRIEND_OF'',
      consulta_sql_relacion = ''SELECT uid1,uid2 FROM friendships'',
      nodo_origen = ''Person'', nodo_destino = ''Person''\<rparr>"

definition ej_opciones :: opciones where
  "ej_opciones = \<lparr>limpiar_neo4j_antes = True, crear_indices = False, modo_debug = False\<rparr>"

definition ej_mapeo :: mapeo_migracion where
  "ej_mapeo =
     \<lparr>entidades = Some [ej_persona], relaciones = Some [ej_amistad],
      opciones_mapeo = Some ej_opciones, otras_claves = []\<rparr>"

definition ej_mapeo_dos :: mapeo_migracion where
  "ej_mapeo_dos =
     \<lparr>entidades = Some [ej_post, ej_persona], relaciones = Some [ej_amistad],
      opciones_mapeo = None, otras_claves = []\<rparr>"

definition ej_mapeo_invalido :: mapeo_migracion where
  "ej_mapeo_invalido =
     \<lparr>entidades = Some [ej_persona, ej_sin_campos], relaciones = Some [],
      opciones_mapeo = None, otras_claves = []\<rparr>"

definition mapeo_vacio :: mapeo_migracion where
  "mapeo_vacio =
     \<lparr>entidades = None, relaciones = None, opciones_mapeo = None, otras_claves = []\<rparr>"

text \<open>
  A source with two users, one tag and one friendship; every other query (the posts
  table, and the tables of the manual mode) raises.
\<close>

definition ej_postgres :: "string \<Rightarrow> error + valor list list" where
  "ej_postgres consulta =
     (if consulta = ''SELECT id,name,email FROM users''
      then Inr [[Entero 1, Texto ''A'', Texto ''a@x''], [Entero 2, Texto ''B'', Texto ''b@x'']]
      else if consulta = ''SELECT uid1,uid2 FROM friendships''
      then Inr [[Entero 1, Entero 2]]
      else if consulta = ''SELECT id FROM tags''
      then Inr [[Entero 7]]
      else Inl (ErrorPostgres ''relation does not exist''))"

definition ej_entorno :: "valor entorno" where
  "ej_entorno =
     \<lparr>postgres = ej_postgres, neo4j_total = (\<lambda>_. 0),
      conexion_falla = False, borrar_al_iniciar = False\<rparr>"

text \<open>A source holding the tables of the manual mode, one row in each.\<close>

definition ej_postgres_manual :: "string \<Rightarrow> error + valor list list" where
  "ej_postgres_manual consulta =
     (if consulta = sql_usuarios then Inr [[Entero 1, Texto ''A'', Texto ''a@x'']]
      else if consulta = sql_publicaciones then Inr [[Entero 5, Texto ''hola'']]
      else if consulta = sql_amistades then Inr []
      else if consulta = sql_publicaciones_autor then Inr [[Entero 1, Entero 5]]
      else Inl (ErrorPostgres ''relation does not exist''))"

definition ej_entorno_manual :: "valor entorno" where
  "ej_entorno_manual =
     \<lparr>postgres = ej_postgres_manual, neo4j_total = (\<lambda>_. 0),
      conexion_falla = False, borrar_al_iniciar = False\<rparr>"

text \<open>The statements the sample configuration generates.\<close>

definition ej_consulta_persona :: string where
  "ej_consulta_persona =
     salto @ sangria 20 @ ''MERGE (n:Person {id: $id})''
     @ salto @ sangria 20 @ ''SET n.id = $id, n.name = $name, n.email = $email''
     @ salto @ sangria 16"

definition ej_consulta_amistad :: string where
  "ej_consulta_amistad =
     salto @ sangria 20 @ ''MATCH (origen:Person {id: $id_origen})''
     @ salto @ sangria 20 @ ''MATCH (destino:Person {id: $id_destino})''
     @ salto @ sangria 20 @ ''MERGE (origen)-[:FRIEND_OF]->(destino)''
     @ salto @ sangria 16"

section \<open>Sequencing\<close>

lemma luego_Inr [simp]: "luego (evs, Inr x) f = (evs @ fst (f x), snd (f x))"
  by (simp add: luego_def split: prod.splits)

lemma luego_Inl [simp]: "luego (evs, Inl err) f = (evs, Inl err)"
  by (simp add: luego_def)

lemma luego_imprimir [simp]: "luego (imprimir msg) f = (Imprimir msg # fst (f ()), snd (f ()))"
  by (simp add: imprimir_def)

lemma luego_ejecutar [simp]: "luego (ejecutar q p) f = (Ejecutar q p # fst (f ()), snd (f ()))"
  by (simp add: ejecutar_def)

lemma luego_nada [simp]: "luego nada f = f ()"
  by (simp add: nada_def)

lemma luego_puro_Inr [simp]: "luego (puro (Inr x)) f = f x"
  by (simp add: puro_def)

lemma luego_puro_Inl [simp]: "luego (puro (Inl err)) f = ([], Inl err)"
  by (simp add: puro_def)

lemma luego_assoc: "luego (luego a f) g = luego a (\<lambda>x. luego (f x) g)"
  by (cases a) (auto simp: luego_def split: sum.splits prod.splits)

lemma para_cada_append: "para_cada f (xs @ ys) = luego (para_cada f xs) (\<lambda>_. para_cada f ys)"
  by (induction xs) (simp_all add: luego_assoc)

lemma para_cada_ejecutar: "para_cada (ejecutar q) rs = (map (Ejecutar q) rs, Inr ())"
  by (induction rs) (simp_all add: nada_def)

lemma crear_nodos_neo4j_eq:
  "crear_nodos_neo4j q rs etq = (map (Ejecutar q) rs @ [Imprimir (MsgNodosCreados etq (length rs))], Inr ())"
  by (simp add: crear_nodos_neo4j_def para_cada_ejecutar imprimir_def)

lemma crear_relaciones_neo4j_eq:
  "crear_relaciones_neo4j q rs tipo = (map (Ejecutar q) rs @ [Imprimir (MsgRelacionesCreadas tipo (length rs))], Inr ())"
  by (simp add: crear_relaciones_neo4j_def para_cada_ejecutar imprimir_def)

section \<open>Plans\<close>

lemma sigue_fst: "sigue a (fst a)"
  by (simp add: sigue_def split: sum.splits)

lemma sigue_luego: "sigue a pa \<Longrightarrow> sigue b pb \<Longrightarrow> sigue (luego a (\<lambda>_. b)) (pa @ pb)"
  by (cases a; cases b) (auto simp: sigue_def luego_def split: sum.splits)

lemma sigue_imprimir: "sigue (imprimir msg) [Imprimir msg]"
  by (simp add: sigue_def imprimir_def)

lemma sigue_final: "sigue (luego (imprimir msg) (\<lambda>_. puro (Inr r))) [Imprimir msg]"
  by (simp add: sigue_def puro_def)

lemma sigue_para_cada: "sigue (para_cada f xs) (concat (map (\<lambda>x. fst (f x)) xs))"
proof (induction xs)
  case Nil
  show ?case by (simp add: sigue_def nada_def)
next
  case (Cons x xs)
  have "sigue (luego (f x) (\<lambda>_. para_cada f xs)) (fst (f x) @ concat (map (\<lambda>x. fst (f x)) xs))"
    by (rule sigue_luego[OF sigue_fst Cons.IH])
  then show ?case by simp
qed

lemma sigue_limpieza: "sigue (fase_limpieza op) (plan_limpieza op)"
  by (simp add: sigue_def fase_limpieza_def plan_limpieza_def imprimir_def nada_def)

lemma fase_limpieza_eq: "fase_limpieza op = (plan_limpieza op, Inr ())"
  by (simp add: fase_limpieza_def plan_limpieza_def imprimir_def nada_def)

lemma sigue_entidades: "sigue (fase_entidades ent m) (plan_entidades ent m)"
proof (cases "entidades m")
  case None
  then show ?thesis
    by (simp add: sigue_def fase_entidades_def plan_entidades_def leer_entidades_def
        entidades_declaradas_def)
next
  case (Some ents)
  have "sigue (luego (imprimir MsgFase1Entidades)
                (\<lambda>_. para_cada (migrar_entidad ent (obtener_opciones m)) ents))
          ([Imprimir MsgFase1Entidades]
           @ concat (map (\<lambda>e. fst (migrar_entidad ent (obtener_opciones m) e)) ents))"
    by (rule sigue_luego[OF sigue_imprimir sigue_para_cada])
  then show ?thesis
    using Some
    by (simp add: fase_entidades_def plan_entidades_def leer_entidades_def
        entidades_declaradas_def)
qed

lemma sigue_relaciones: "sigue (fase_relaciones ent m) (plan_relaciones ent m)"
proof (cases "relaciones m")
  case None
  then show ?thesis
    by (simp add: sigue_def fase_relaciones_def plan_relaciones_def leer_relaciones_def
        relaciones_declaradas_def)
next
  case rels: (Some rels)
  show ?thesis
  proof (cases "entidades m")
    case None
    then show ?thesis
      using rels
      by (simp add: sigue_def fase_relaciones_def plan_relaciones_def leer_relaciones_def
          leer_entidades_def relaciones_declaradas_def)
  next
    case (Some ents)
    have "sigue (luego (imprimir MsgFase2Relaciones)
                  (\<lambda>_. para_cada (migrar_relacion ent (obtener_opciones m) ents) rels))
            ([Imprimir MsgFase2Relaciones]
             @ concat (map (\<lambda>r. fst (migrar_relacion ent (obtener_opciones m) ents r)) rels))"
      by (rule sigue_luego[OF sigue_imprimir sigue_para_cada])
    then show ?thesis
      using Some rels
      by (simp add: fase_relaciones_def plan_relaciones_def leer_relaciones_def
          leer_entidades_def relaciones_declaradas_def entidades_declaradas_def)
  qed
qed

lemma automatica_sigue_plan:
  "sigue (ejecutar_migracion_automatica ent m) (plan_automatico ent m)"
proof -
  have "sigue (ejecutar_migracion_automatica ent m)
          ([Imprimir MsgUsandoAutomatica] @ plan_limpieza (obtener_opciones m)
           @ plan_entidades ent m @ plan_relaciones ent m @ fst (fase_indices m)
           @ fst (fase_estadisticas ent m) @ [Imprimir MsgAutomaticaCompletada])"
    unfolding ejecutar_migracion_automatica_def
    by (intro sigue_luego sigue_imprimir sigue_limpieza sigue_entidades sigue_relaciones
        sigue_fst sigue_final)
  then show ?thesis by (simp add: plan_automatico_def)
qed

text \<open>
  Claim C6. The trace of a declarative run is a prefix of the planned sequence, and the
  whole of it when the run returns: the clearing statement (when configured) comes first,
  then the events of every entity in declaration order, then the events of every
  relationship in declaration order, then indexing and reporting. The events of one unit
  are contiguous, so units are processed one at a time.
\<close>

theorem C6_orden_de_fases:
  "prefix (fst (ejecutar_migracion_automatica ent m)) (plan_automatico ent m)
   \<and> (\<forall>res. snd (ejecutar_migracion_automatica ent m) = Inr res
        \<longrightarrow> fst (ejecutar_migracion_automatica ent m) = plan_automatico ent m)"
  using automatica_sigue_plan[of ent m] by (auto simp: sigue_def)

section \<open>Conversions\<close>

lemma mapear_miembro:
  "mapear f xs = Inr ys \<Longrightarrow> y \<in> set ys \<Longrightarrow> \<exists>x\<in>set xs. f x = Inr y"
  by (induction xs arbitrary: ys) (auto simp: ligar_def split: sum.splits)

lemma mapear_Inr_iff: "(\<exists>ys. mapear f xs = Inr ys) \<longleftrightarrow> (\<forall>x\<in>set xs. \<exists>y. f x = Inr y)"
  by (induction xs) (auto simp: ligar_def split: sum.splits)

lemma registro_relacion_ok:
  "2 \<le> length fila \<Longrightarrow>
   registro_relacion fila = Inr [(''id_origen'', fila ! 0), (''id_destino'', fila ! 1)]"
  by (cases fila) (auto simp: registro_relacion_def indice_def ligar_def)

lemma registro_relacion_corta: "length fila < 2 \<Longrightarrow> registro_relacion fila = Inl IndexError"
  by (cases fila) (auto simp: registro_relacion_def indice_def ligar_def)

text \<open>
  Claim C10. A relationship row with at least two columns becomes the record of its
  columns 0 and 1, whatever further columns it has; a row with fewer than two columns
  raises IndexError; so the conversion of a batch returns exactly when every row has at
  least two columns.
\<close>

theorem C10_registro_relacion:
  "(2 \<le> length fila \<longrightarrow>
      registro_relacion fila = Inr [(''id_origen'', fila ! 0), (''id_destino'', fila ! 1)]
      \<and> registro_relacion (take 2 fila) = registro_relacion fila)
   \<and> (length fila < 2 \<longrightarrow> registro_relacion fila = Inl IndexError)
   \<and> ((\<exists>registros. mapear registro_relacion datos = Inr registros)
        \<longleftrightarrow> (\<forall>f\<in>set datos. 2 \<le> length f))"
proof (intro conjI impI)
  assume "2 \<le> length fila"
  then show "registro_relacion fila = Inr [(''id_origen'', fila ! 0), (''id_destino'', fila ! 1)]"
    by (rule registro_relacion_ok)
next
  assume h: "2 \<le> length fila"
  then have "2 \<le> length (take 2 fila)" by simp
  from registro_relacion_ok[OF this] registro_relacion_ok[OF h]
  show "registro_relacion (take 2 fila) = registro_relacion fila" by simp
next
  assume "length fila < 2"
  then show "registro_relacion fila = Inl IndexError" by (rule registro_relacion_corta)
next
  have "(\<exists>y. registro_relacion f = Inr y) \<longleftrightarrow> 2 \<le> length f" for f :: "'b list"
  proof (cases "2 \<le> length f")
    case True
    then show ?thesis by (simp add: registro_relacion_ok)
  next
    case False
    then have "length f < 2" by simp
    from registro_relacion_corta[OF this] False show ?thesis by simp
  qed
  then show "(\<exists>registros. mapear registro_relacion datos = Inr registros)
        \<longleftrightarrow> (\<forall>f\<in>set datos. 2 \<le> length f)"
    by (simp add: mapear_Inr_iff)
qed

theorem C10_registro_relacion_witness:
  "registro_relacion [Entero 1, Entero 2, Entero 3]
     = Inr [(''id_origen'', Entero 1), (''id_destino'', Entero 2)]
   \<and> registro_relacion [Entero 1] = Inl IndexError
   \<and> (\<exists>registros. mapear registro_relacion [[Entero 1, Entero 2], [Entero 3, Entero 4, Entero 5]]
        = Inr registros)"
  using C10_registro_relacion[of "[Entero 1, Entero 2, Entero 3]"
          "[[Entero 1, Entero 2], [Entero 3, Entero 4, Entero 5]]"]
        C10_registro_relacion[of "[Entero 1]" "[]"]
  by (simp add: ligar_def registro_relacion_def indice_def)

lemma update_nuevo: "k \<notin> fst ` set al \<Longrightarrow> AList.update k v al = al @ [(k, v)]"
  by (induction al) auto

lemma llenar_registro_ok:
  assumes dk: "distinct (map fst mapeo)" and dv: "distinct (map snd mapeo)"
      and len: "length mapeo \<le> length fila"
  shows "mapeo = pre @ ms \<Longrightarrow>
         llenar_registro mapeo fila (enumerate (length pre) (map fst ms))
           (zip (map snd pre) (take (length pre) fila))
         = Inr (zip (map snd mapeo) (take (length mapeo) fila))"
proof (induction ms arbitrary: pre)
  case Nil
  then show ?case by simp
next
  case (Cons a ms)
  obtain k p where a: "a = (k, p)" by (cases a)
  let ?n = "length pre"
  let ?acc = "zip (map snd pre) (take ?n fila)"
  have mem: "(k, p) \<in> set mapeo" using Cons.prems a by simp
  have look: "map_of mapeo k = Some p" using dk mem by (rule map_of_is_SomeI)
  have n: "?n < length fila" using Cons.prems len by simp
  have "p \<notin> set (map snd pre)" using dv Cons.prems a by auto
  moreover have "fst ` set ?acc \<subseteq> set (map snd pre)" by (auto dest: set_zip_leftD)
  ultimately have fresh: "p \<notin> fst ` set ?acc" by blast
  have step: "AList.update p (fila ! ?n) ?acc
              = zip (map snd (pre @ [a])) (take (length (pre @ [a])) fila)"
    using n by (simp add: update_nuevo[OF fresh] a take_Suc_conv_app_nth)
  have l: "length (pre @ [a]) = Suc ?n" by simp
  have m: "mapeo = (pre @ [a]) @ ms" using Cons.prems by simp
  have "llenar_registro mapeo fila (enumerate ?n (map fst (a # ms))) ?acc
        = llenar_registro mapeo fila (enumerate (Suc ?n) (map fst ms))
            (AList.update p (fila ! ?n) ?acc)"
    using look n by (simp add: a clave_def indice_def ligar_def)
  also have "\<dots> = llenar_registro mapeo fila (enumerate (length (pre @ [a])) (map fst ms))
                    (zip (map snd (pre @ [a])) (take (length (pre @ [a])) fila))"
    by (simp only: step l)
  also have "\<dots> = Inr (zip (map snd mapeo) (take (length mapeo) fila))"
    by (rule Cons.IH[OF m])
  finally show ?case .
qed

lemma llenar_registro_corta:
  "set ks \<subseteq> fst ` set mapeo \<Longrightarrow> n \<le> length fila \<Longrightarrow> length fila < n + length ks \<Longrightarrow>
   llenar_registro mapeo fila (enumerate n ks) acc = Inl IndexError"
proof (induction ks arbitrary: n acc)
  case Nil
  then show ?case by simp
next
  case (Cons k ks)
  from Cons.prems(1) have "map_of mapeo k \<noteq> None" by (simp add: map_of_eq_None_iff)
  then obtain p where p: "map_of mapeo k = Some p" by auto
  show ?case
  proof (cases "n < length fila")
    case True
    have "llenar_registro mapeo fila (enumerate (Suc n) ks) acc' = Inl IndexError" for acc'
      using Cons.IH[of "Suc n" acc'] Cons.prems True by simp
    then show ?thesis using True p by (simp add: clave_def indice_def ligar_def)
  next
    case False
    then show ?thesis using p by (simp add: clave_def indice_def ligar_def)
  qed
qed

text \<open>
  Claim C2, as amended. The keys of the field map are distinct, as those of any
  dictionary. When the target property names are distinct too and the row has at least
  as many columns as the field map has entries, the record holds exactly one property per
  entry, in order, named by the target name and holding the column at the entry's
  position; further columns are ignored. A row with fewer columns raises IndexError.
\<close>

theorem C2_convertir_fila:
  assumes "distinct (map fst mapeo)" and "distinct (map snd mapeo)"
  shows "(length mapeo \<le> length fila \<longrightarrow>
            convertir_fila mapeo fila = Inr (zip (map snd mapeo) (take (length mapeo) fila)))
         \<and> (length fila < length mapeo \<longrightarrow> convertir_fila mapeo fila = Inl IndexError)"
proof (intro conjI impI)
  assume "length mapeo \<le> length fila"
  from llenar_registro_ok[OF assms this, of "[]" mapeo]
  show "convertir_fila mapeo fila = Inr (zip (map snd mapeo) (take (length mapeo) fila))"
    by (simp add: convertir_fila_def)
next
  assume "length fila < length mapeo"
  then show "convertir_fila mapeo fila = Inl IndexError"
    using llenar_registro_corta[of "map fst mapeo" mapeo 0 fila "[]"]
    by (simp add: convertir_fila_def)
qed

theorem C2_convertir_fila_witness:
  "convertir_fila [(''id'', ''id''), (''name'', ''name''), (''email'', ''email'')]
     [Entero 1, Texto ''A'', Texto ''a@x'', Entero 9]
   = Inr [(''id'', Entero 1), (''name'', Texto ''A''), (''email'', Texto ''a@x'')]
   \<and> convertir_fila [(''id'', ''id''), (''name'', ''name''), (''email'', ''email'')] [Entero 1]
     = Inl IndexError"
  using C2_convertir_fila[of "[(''id'', ''id''), (''name'', ''name''), (''email'', ''email'')]"
          "[Entero 1, Texto ''A'', Texto ''a@x'', Entero 9]"]
        C2_convertir_fila[of "[(''id'', ''id''), (''name'', ''name''), (''email'', ''email'')]"
          "[Entero 1]"]
  by simp

theorem C2_convertir_fila_counterexample:
  "convertir_fila [(''a'', ''x''), (''b'', ''x'')] [Entero 1, Entero 2] = Inr [(''x'', Entero 2)]
   \<and> convertir_fila [(''id'', ''id''), (''name'', ''name'')] [Entero 1] = Inl IndexError"
  by (simp add: convertir_fila_def clave_def indice_def ligar_def)

section \<open>Statements\<close>

text \<open>
  Claim C1. For a non-empty field map the node statement merges on the label and exactly
  one property, the first mapped one, and then sets one assignment per mapped property,
  in order, the identity property first among them. That a repeated run then updates
  instead of duplicating is the MERGE semantics of the graph store, which is not part of
  the program.
\<close>

theorem C1_generar_consulta_nodos:
  assumes "mapeo \<noteq> []"
  shows "generar_consulta_nodos etiqueta mapeo =
           Inr (salto @ sangria 20 @ ''MERGE (n:'' @ etiqueta @ '' {'' @ snd (hd mapeo)
                @ '': $'' @ snd (hd mapeo) @ ''})''
                @ salto @ sangria 20 @ ''SET ''
                @ str_join '', '' (map (\<lambda>campo. ''n.'' @ campo @ '' = $'' @ campo) (map snd mapeo))
                @ salto @ sangria 16)
         \<and> length (map (\<lambda>campo. ''n.'' @ campo @ '' = $'' @ campo) (map snd mapeo)) = length mapeo
         \<and> hd (map (\<lambda>campo. ''n.'' @ campo @ '' = $'' @ campo) (map snd mapeo))
             = ''n.'' @ snd (hd mapeo) @ '' = $'' @ snd (hd mapeo)"
  using assms
  by (cases mapeo)
     (simp_all add: generar_consulta_nodos_def indice_def ligar_def asignacion_def[abs_def])

theorem C1_generar_consulta_nodos_witness:
  "generar_consulta_nodos ''Person'' [(''id'', ''id''), (''name'', ''name''), (''email'', ''email'')]
   = Inr (salto @ sangria 20 @ ''MERGE (n:Person {id: $id})''
          @ salto @ sangria 20 @ ''SET n.id = $id, n.name = $name, n.email = $email''
          @ salto @ sangria 16)"
  using C1_generar_consulta_nodos[of "[(''id'', ''id''), (''name'', ''name''), (''email'', ''email'')]"
          "''Person''"]
  by simp


section \<open>The loop bodies\<close>

lemma luego_ok: "snd a = Inr u \<Longrightarrow> luego a f = (fst a @ fst (f u), snd (f u))"
  by (cases a) simp

lemma migrar_entidad_falla:
  "postgres ent (consulta_sql e) = Inl err \<Longrightarrow>
   migrar_entidad ent op e
   = ([Imprimir (MsgMigrando (nombre e) (etiqueta_neo4j e)), Consulta (consulta_sql e)], Inl err)"
  by (simp add: migrar_entidad_def obtener_datos_postgresql_def)

lemma migrar_entidad_vacio:
  "postgres ent (consulta_sql e) = Inr [] \<Longrightarrow>
   migrar_entidad ent op e
   = ([Imprimir (MsgMigrando (nombre e) (etiqueta_neo4j e)), Consulta (consulta_sql e),
       Imprimir (MsgSinDatos (nombre e))], Inr ())"
  by (simp add: migrar_entidad_def obtener_datos_postgresql_def imprimir_def)

lemma migrar_entidad_datos:
  "postgres ent (consulta_sql e) = Inr datos \<Longrightarrow> datos \<noteq> [] \<Longrightarrow>
   migrar_entidad ent op e
   = (case convertir_datos (mapeo_campos e) datos of
        Inl err \<Rightarrow>
          ([Imprimir (MsgMigrando (nombre e) (etiqueta_neo4j e)), Consulta (consulta_sql e)],
           Inl err)
      | Inr datos_dict \<Rightarrow>
          (case generar_consulta_nodos (etiqueta_neo4j e) (mapeo_campos e) of
             Inl err \<Rightarrow>
               ([Imprimir (MsgMigrando (nombre e) (etiqueta_neo4j e)), Consulta (consulta_sql e)],
                Inl err)
           | Inr consulta \<Rightarrow>
               ([Imprimir (MsgMigrando (nombre e) (etiqueta_neo4j e)), Consulta (consulta_sql e)]
                @ (if modo_debug op then [Imprimir (MsgConsultaCypher consulta)] else [])
                @ map (Ejecutar consulta) datos_dict
                @ [Imprimir (MsgNodosCreados (etiqueta_neo4j e) (length datos_dict))],
                Inr ())))"
  by (simp add: migrar_entidad_def obtener_datos_postgresql_def crear_nodos_neo4j_eq
      imprimir_def nada_def split: sum.splits)

lemma migrar_relacion_falla:
  "postgres ent (consulta_sql_relacion r) = Inl err \<Longrightarrow>
   migrar_relacion ent op ents r
   = ([Imprimir (MsgCreandoRelaciones (tipo_relacion r)), Consulta (consulta_sql_relacion r)],
      Inl err)"
  by (simp add: migrar_relacion_def obtener_datos_postgresql_def)

lemma migrar_relacion_vacio:
  "postgres ent (consulta_sql_relacion r) = Inr [] \<Longrightarrow>
   migrar_relacion ent op ents r
   = ([Imprimir (MsgCreandoRelaciones (tipo_relacion r)), Consulta (consulta_sql_relacion r),
       Imprimir (MsgSinRelaciones (nombre_relacion r))], Inr ())"
  by (simp add: migrar_relacion_def obtener_datos_postgresql_def imprimir_def)

lemma migrar_relacion_datos:
  "postgres ent (consulta_sql_relacion r) = Inr datos \<Longrightarrow> datos \<noteq> [] \<Longrightarrow>
   migrar_relacion ent op ents r
   = (case mapear registro_relacion datos of
        Inl err \<Rightarrow>
          ([Imprimir (MsgCreandoRelaciones (tipo_relacion r)), Consulta (consulta_sql_relacion r)],
           Inl err)
      | Inr datos_dict \<Rightarrow>
          (case generar_consulta_relacion ents r of
             Inl err \<Rightarrow>
               ([Imprimir (MsgCreandoRelaciones (tipo_relacion r)),
                 Consulta (consulta_sql_relacion r)], Inl err)
           | Inr consulta \<Rightarrow>
               ([Imprimir (MsgCreandoRelaciones (tipo_relacion r)),
                 Consulta (consulta_sql_relacion r)]
                @ (if modo_debug op then [Imprimir (MsgConsultaCypher consulta)] else [])
                @ map (Ejecutar consulta) datos_dict
                @ [Imprimir (MsgRelacionesCreadas (tipo_relacion r) (length datos_dict))],
                Inr ())))"
  by (simp add: migrar_relacion_def obtener_datos_postgresql_def crear_relaciones_neo4j_eq
      imprimir_def nada_def split: sum.splits)

text \<open>
  Claim C7. When the source query of an entity or of a relationship returns no row, the
  unit prints its notice, sends no statement to the graph store and returns, and the loop
  goes on with the units declared after it.
\<close>

theorem C7_consulta_sin_filas:
  "(postgres ent (consulta_sql e) = Inr [] \<longrightarrow>
      migrar_entidad ent op e
      = ([Imprimir (MsgMigrando (nombre e) (etiqueta_neo4j e)), Consulta (consulta_sql e),
          Imprimir (MsgSinDatos (nombre e))], Inr ())
      \<and> para_cada (migrar_entidad ent op) (e # es)
        = ([Imprimir (MsgMigrando (nombre e) (etiqueta_neo4j e)), Consulta (consulta_sql e),
            Imprimir (MsgSinDatos (nombre e))] @ fst (para_cada (migrar_entidad ent op) es),
           snd (para_cada (migrar_entidad ent op) es)))
   \<and> (postgres ent (consulta_sql_relacion r) = Inr [] \<longrightarrow>
      migrar_relacion ent op ents r
      = ([Imprimir (MsgCreandoRelaciones (tipo_relacion r)), Consulta (consulta_sql_relacion r),
          Imprimir (MsgSinRelaciones (nombre_relacion r))], Inr ())
      \<and> para_cada (migrar_relacion ent op ents) (r # rs)
        = ([Imprimir (MsgCreandoRelaciones (tipo_relacion r)), Consulta (consulta_sql_relacion r),
            Imprimir (MsgSinRelaciones (nombre_relacion r))]
           @ fst (para_cada (migrar_relacion ent op ents) rs),
           snd (para_cada (migrar_relacion ent op ents) rs)))"
  by (simp add: migrar_entidad_vacio migrar_relacion_vacio)

theorem C7_consulta_sin_filas_witness:
  "migrar_entidad (ej_entorno\<lparr>postgres := \<lambda>_. Inr []\<rparr>) ej_opciones ej_persona
   = ([Imprimir (MsgMigrando ''usuarios'' ''Person''),
       Consulta ''SELECT id,name,email FROM users'',
       Imprimir (MsgSinDatos ''usuarios'')], Inr ())
   \<and> para_cada (migrar_relacion (ej_entorno\<lparr>postgres := \<lambda>_. Inr []\<rparr>) ej_opciones [ej_persona])
       [ej_amistad, ej_amistad]
     = ([Imprimir (MsgCreandoRelaciones ''FRIEND_OF''),
         Consulta ''SELECT uid1,uid2 FROM friendships'',
         Imprimir (MsgSinRelaciones ''amistades''),
         Imprimir (MsgCreandoRelaciones ''FRIEND_OF''),
         Consulta ''SELECT uid1,uid2 FROM friendships'',
         Imprimir (MsgSinRelaciones ''amistades'')], Inr ())"
  using C7_consulta_sin_filas[where ent = "ej_entorno\<lparr>postgres := \<lambda>_. Inr []\<rparr>"
          and op = ej_opciones and e = ej_persona and es = "[]" and r = ej_amistad
          and ents = "[ej_persona]" and rs = "[ej_amistad]"]
        C7_consulta_sin_filas[where ent = "ej_entorno\<lparr>postgres := \<lambda>_. Inr []\<rparr>"
          and op = ej_opciones and e = ej_persona and es = "[]" and r = ej_amistad
          and ents = "[ej_persona]" and rs = "[]"]
  by (simp add: ej_persona_def ej_amistad_def nada_def)

section \<open>A failing unit ends the run\<close>

lemma automatica_entidad_falla:
  assumes ents: "entidades m = Some (previas @ e # posteriores)"
      and prev: "snd (para_cada (migrar_entidad ent (obtener_opciones m)) previas) = Inr ()"
      and falla: "snd (migrar_entidad ent (obtener_opciones m) e) = Inl err"
  shows "ejecutar_migracion_automatica ent m
         = (Imprimir MsgUsandoAutomatica # plan_limpieza (obtener_opciones m)
            @ Imprimir MsgFase1Entidades
            # fst (para_cada (migrar_entidad ent (obtener_opciones m)) previas)
            @ fst (migrar_entidad ent (obtener_opciones m) e), Inl err)"
proof -
  let ?g = "migrar_entidad ent (obtener_opciones m)"
  obtain evs where ge: "?g e = (evs, Inl err)" using falla by (cases "?g e") simp
  have "para_cada ?g (e # posteriores) = (fst (?g e), Inl err)"
    by (simp add: ge)
  then have pc: "para_cada ?g (previas @ e # posteriores)
             = (fst (para_cada ?g previas) @ fst (?g e), Inl err)"
    by (simp only: para_cada_append luego_ok[OF prev] fst_conv snd_conv)
  show ?thesis
    by (simp add: ejecutar_migracion_automatica_def fase_limpieza_eq fase_entidades_def
        leer_entidades_def ents pc)
qed

lemma automatica_relacion_falla:
  assumes ents: "entidades m = Some ents"
      and rels: "relaciones m = Some (anteriores @ r # siguientes)"
      and eok: "snd (para_cada (migrar_entidad ent (obtener_opciones m)) ents) = Inr ()"
      and prev: "snd (para_cada (migrar_relacion ent (obtener_opciones m) ents) anteriores)
                 = Inr ()"
      and falla: "snd (migrar_relacion ent (obtener_opciones m) ents r) = Inl err"
  shows "ejecutar_migracion_automatica ent m
         = (Imprimir MsgUsandoAutomatica # plan_limpieza (obtener_opciones m)
            @ plan_entidades ent m
            @ Imprimir MsgFase2Relaciones
            # fst (para_cada (migrar_relacion ent (obtener_opciones m) ents) anteriores)
            @ fst (migrar_relacion ent (obtener_opciones m) ents r), Inl err)"
proof -
  let ?h = "migrar_relacion ent (obtener_opciones m) ents"
  have s: "snd (fase_entidades ent m) = Inr ()"
    by (simp add: fase_entidades_def leer_entidades_def ents eok)
  with sigue_entidades[of ent m] have "fst (fase_entidades ent m) = plan_entidades ent m"
    by (simp add: sigue_def)
  with s have fe: "fase_entidades ent m = (plan_entidades ent m, Inr ())"
    by (cases "fase_entidades ent m") simp
  obtain evs where hr: "?h r = (evs, Inl err)" using falla by (cases "?h r") simp
  have "para_cada ?h (r # siguientes) = (fst (?h r), Inl err)"
    by (simp add: hr)
  then have pc: "para_cada ?h (anteriores @ r # siguientes)
             = (fst (para_cada ?h anteriores) @ fst (?h r), Inl err)"
    by (simp only: para_cada_append luego_ok[OF prev] fst_conv snd_conv)
  have fr: "fase_relaciones ent m
            = (Imprimir MsgFase2Relaciones # fst (para_cada ?h anteriores) @ fst (?h r), Inl err)"
    by (simp add: fase_relaciones_def leer_relaciones_def leer_entidades_def ents rels pc)
  show ?thesis
    by (simp add: ejecutar_migracion_automatica_def fase_limpieza_eq fe fr)
qed

text \<open>
  Claim C3, as amended. The loop has no handler: when the source query of an entity
  raises, the run ends with that exception right after the failing query. The entities
  declared before it have been processed; those declared after it, and every
  relationship, are not attempted.
\<close>

theorem C3_consulta_fallida_termina_la_migracion:
  assumes "entidades m = Some (previas @ e # posteriores)"
      and "snd (para_cada (migrar_entidad ent (obtener_opciones m)) previas) = Inr ()"
      and "postgres ent (consulta_sql e) = Inl err"
  shows "ejecutar_migracion_automatica ent m
         = (Imprimir MsgUsandoAutomatica # plan_limpieza (obtener_opciones m)
            @ Imprimir MsgFase1Entidades
            # fst (para_cada (migrar_entidad ent (obtener_opciones m)) previas)
            @ [Imprimir (MsgMigrando (nombre e) (etiqueta_neo4j e)), Consulta (consulta_sql e)],
            Inl err)"
  using automatica_entidad_falla[OF assms(1) assms(2), of err]
  by (simp add: migrar_entidad_falla[OF assms(3)])

section \<open>The sample run\<close>

lemma ej_persona_traza:
  "migrar_entidad ej_entorno op ej_persona
   = ([Imprimir (MsgMigrando ''usuarios'' ''Person''),
       Consulta ''SELECT id,name,email FROM users'']
      @ (if modo_debug op then [Imprimir (MsgConsultaCypher ej_consulta_persona)] else [])
      @ [Ejecutar ej_consulta_persona
           [(''id'', Entero 1), (''name'', Texto ''A''), (''email'', Texto ''a@x'')],
         Ejecutar ej_consulta_persona
           [(''id'', Entero 2), (''name'', Texto ''B''), (''email'', Texto ''b@x'')],
         Imprimir (MsgNodosCreados ''Person'' 2)], Inr ())"
proof -
  have pg: "postgres ej_entorno (consulta_sql ej_persona)
            = Inr [[Entero 1, Texto ''A'', Texto ''a@x''], [Entero 2, Texto ''B'', Texto ''b@x'']]"
    by (simp add: ej_entorno_def ej_postgres_def ej_persona_def)
  have cd: "convertir_datos [(''id'', ''id''), (''name'', ''name''), (''email'', ''email'')]
              [[Entero 1, Texto ''A'', Texto ''a@x''], [Entero 2, Texto ''B'', Texto ''b@x'']]
            = Inr [[(''id'', Entero 1), (''name'', Texto ''A''), (''email'', Texto ''a@x'')],
                   [(''id'', Entero 2), (''name'', Texto ''B''), (''email'', Texto ''b@x'')]]"
    by (simp add: convertir_datos_def convertir_fila_def clave_def indice_def ligar_def)
  have gq: "generar_consulta_nodos ''Person''
              [(''id'', ''id''), (''name'', ''name''), (''email'', ''email'')]
            = Inr ej_consulta_persona"
    by (simp add: generar_consulta_nodos_def indice_def ligar_def asignacion_def
        ej_consulta_persona_def)
  show ?thesis
    unfolding migrar_entidad_datos[OF pg list.distinct(2)]
    by (simp add: ej_persona_def cd gq)
qed

lemma ej_post_falla:
  "migrar_entidad ej_entorno op ej_post
   = ([Imprimir (MsgMigrando ''publicaciones'' ''Post''), Consulta ''SELECT id,texto FROM posts''],
      Inl (ErrorPostgres ''relation does not exist''))"
proof -
  have "postgres ej_entorno (consulta_sql ej_post) = Inl (ErrorPostgres ''relation does not exist'')"
    by (simp add: ej_entorno_def ej_postgres_def ej_post_def)
  from migrar_entidad_falla[OF this] show ?thesis by (simp add: ej_post_def)
qed

lemma ej_amistad_traza:
  "migrar_relacion ej_entorno op [ej_persona] ej_amistad
   = ([Imprimir (MsgCreandoRelaciones ''FRIEND_OF''),
       Consulta ''SELECT uid1,uid2 FROM friendships'']
      @ (if modo_debug op then [Imprimir (MsgConsultaCypher ej_consulta_amistad)] else [])
      @ [Ejecutar ej_consulta_amistad [(''id_origen'', Entero 1), (''id_destino'', Entero 2)],
         Imprimir (MsgRelacionesCreadas ''FRIEND_OF'' 1)], Inr ())"
proof -
  have pg: "postgres ej_entorno (consulta_sql_relacion ej_amistad) = Inr [[Entero 1, Entero 2]]"
    by (simp add: ej_entorno_def ej_postgres_def ej_amistad_def)
  have gq: "generar_consulta_relacion [ej_persona] ej_amistad = Inr ej_consulta_amistad"
    by (simp add: generar_consulta_relacion_def buscar_entidad_def indice_def ligar_def
        ej_persona_def ej_amistad_def ej_consulta_amistad_def)
  show ?thesis
    unfolding migrar_relacion_datos[OF pg list.distinct(2)]
    by (simp add: gq registro_relacion_def indice_def ligar_def) (simp add: ej_amistad_def)
qed

theorem C3_consulta_fallida_witness:
  "snd (ejecutar_migracion_automatica ej_entorno
          (ej_mapeo_dos\<lparr>entidades := Some [ej_persona, ej_post]\<rparr>))
   = Inl (ErrorPostgres ''relation does not exist'')
   \<and> Consulta ''SELECT uid1,uid2 FROM friendships''
       \<notin> set (fst (ejecutar_migracion_automatica ej_entorno
                     (ej_mapeo_dos\<lparr>entidades := Some [ej_persona, ej_post]\<rparr>)))"
proof -
  let ?m = "ej_mapeo_dos\<lparr>entidades := Some [ej_persona, ej_post]\<rparr>"
  have h1: "entidades ?m = Some ([ej_persona] @ ej_post # [])" by simp
  have h2: "snd (para_cada (migrar_entidad ej_entorno (obtener_opciones ?m)) [ej_persona]) = Inr ()"
    by (simp add: ej_persona_traza nada_def)
  have h3: "postgres ej_entorno (consulta_sql ej_post)
            = Inl (ErrorPostgres ''relation does not exist'')"
    by (simp add: ej_entorno_def ej_postgres_def ej_post_def)
  from C3_consulta_fallida_termina_la_migracion[OF h1 h2 h3]
  show ?thesis
    by (simp add: ej_persona_traza nada_def plan_limpieza_def obtener_opciones_def
        ej_mapeo_dos_def ej_post_def)
qed

theorem C3_consulta_fallida_counterexample:
  "snd (ejecutar_migracion_automatica ej_entorno ej_mapeo_dos)
   = Inl (ErrorPostgres ''relation does not exist'')
   \<and> Consulta ''SELECT id,name,email FROM users''
       \<notin> set (fst (ejecutar_migracion_automatica ej_entorno ej_mapeo_dos))"
proof -
  have h1: "entidades ej_mapeo_dos = Some ([] @ ej_post # [ej_persona])"
    by (simp add: ej_mapeo_dos_def)
  have h2: "snd (para_cada (migrar_entidad ej_entorno (obtener_opciones ej_mapeo_dos)) []) = Inr ()"
    by (simp add: nada_def)
  have h3: "snd (migrar_entidad ej_entorno (obtener_opciones ej_mapeo_dos) ej_post)
            = Inl (ErrorPostgres ''relation does not exist'')"
    by (simp add: ej_post_falla)
  from automatica_entidad_falla[OF h1 h2 h3]
  show ?thesis
    by (simp add: ej_post_falla nada_def plan_limpieza_def obtener_opciones_def ej_mapeo_dos_def)
qed


section \<open>No validation on load\<close>

lemma convertir_datos_sin_campos: "convertir_datos [] datos = Inr (map (\<lambda>_. []) datos)"
  by (induction datos) (simp_all add: convertir_datos_def convertir_fila_def ligar_def)

lemma migrar_entidad_sin_campos:
  assumes "mapeo_campos e = []" and "postgres ent (consulta_sql e) = Inr datos" and "datos \<noteq> []"
  shows "migrar_entidad ent op e
         = ([Imprimir (MsgMigrando (nombre e) (etiqueta_neo4j e)), Consulta (consulta_sql e)],
            Inl IndexError)"
  unfolding migrar_entidad_datos[OF assms(2) assms(3)]
  by (simp add: assms(1) convertir_datos_sin_campos generar_consulta_nodos_def indice_def
      ligar_def)

lemma buscar_entidad_StopIteration:
  "etq \<notin> etiqueta_neo4j ` set ents \<Longrightarrow> buscar_entidad ents etq = Inl StopIteration"
  by (auto simp: buscar_entidad_def find_None_iff split: option.splits)

lemma buscar_entidad_resultado:
  "buscar_entidad ents etq = Inl StopIteration \<or> (\<exists>e. buscar_entidad ents etq = Inr e)"
  by (simp add: buscar_entidad_def split: option.splits)

lemma generar_consulta_relacion_StopIteration:
  assumes "nodo_origen r \<notin> etiqueta_neo4j ` set ents \<or> nodo_destino r \<notin> etiqueta_neo4j ` set ents"
  shows "generar_consulta_relacion ents r = Inl StopIteration"
proof (cases "nodo_origen r \<in> etiqueta_neo4j ` set ents")
  case False
  then show ?thesis
    by (simp add: generar_consulta_relacion_def buscar_entidad_StopIteration ligar_def)
next
  case True
  with assms have d: "nodo_destino r \<notin> etiqueta_neo4j ` set ents" by simp
  from buscar_entidad_resultado[of ents "nodo_origen r"] show ?thesis
    by (auto simp: generar_consulta_relacion_def buscar_entidad_StopIteration[OF d] ligar_def)
qed

lemma migrar_relacion_sin_nodo:
  assumes "nodo_origen r \<notin> etiqueta_neo4j ` set ents \<or> nodo_destino r \<notin> etiqueta_neo4j ` set ents"
      and "postgres ent (consulta_sql_relacion r) = Inr filas" and "filas \<noteq> []"
      and "\<forall>f\<in>set filas. 2 \<le> length f"
  shows "migrar_relacion ent op ents r
         = ([Imprimir (MsgCreandoRelaciones (tipo_relacion r)), Consulta (consulta_sql_relacion r)],
            Inl StopIteration)"
proof -
  have "\<forall>f\<in>set filas. \<exists>y. registro_relacion f = Inr y"
    using assms(4) by (auto simp: registro_relacion_ok)
  then obtain registros where "mapear registro_relacion filas = Inr registros"
    using mapear_Inr_iff[of registro_relacion filas] by blast
  then show ?thesis
    unfolding migrar_relacion_datos[OF assms(2) assms(3)]
    by (simp add: generar_consulta_relacion_StopIteration[OF assms(1)])
qed

text \<open>
  Claim C4, as amended. Loading performs no validation: a mapping file that holds a JSON
  object is loaded as it is, without error and without any event, whether or not it meets
  the invariants. The run then uses it, and a partial run happens. When an entity with an
  empty field map is reached and its query returns rows, the run ends there with
  IndexError, after the clearing (when configured), the whole processing of the entities
  declared before it and the entity's own source query. When a relationship whose origin
  or destination label matches no declared entity is reached and its query returns rows
  of at least two columns, the run ends there with StopIteration, after all entities and
  the relationships declared before it have been processed and its own source query has
  been issued.
\<close>

theorem C4_sin_validacion_al_cargar:
  "cargar_mapeo (Contenido m) = ([], Inr (Some m))
   \<and> (entidades m = Some (previas @ e # posteriores)
        \<and> snd (para_cada (migrar_entidad ent (obtener_opciones m)) previas) = Inr ()
        \<and> mapeo_campos e = [] \<and> postgres ent (consulta_sql e) = Inr datos \<and> datos \<noteq> [] \<longrightarrow>
        ejecutar_migracion_automatica ent m
        = (Imprimir MsgUsandoAutomatica # plan_limpieza (obtener_opciones m)
           @ Imprimir MsgFase1Entidades
           # fst (para_cada (migrar_entidad ent (obtener_opciones m)) previas)
           @ [Imprimir (MsgMigrando (nombre e) (etiqueta_neo4j e)), Consulta (consulta_sql e)],
           Inl IndexError))
   \<and> (entidades m = Some ents \<and> relaciones m = Some (anteriores @ r # siguientes)
        \<and> snd (para_cada (migrar_entidad ent (obtener_opciones m)) ents) = Inr ()
        \<and> snd (para_cada (migrar_relacion ent (obtener_opciones m) ents) anteriores) = Inr ()
        \<and> (nodo_origen r \<notin> etiqueta_neo4j ` set ents \<or> nodo_destino r \<notin> etiqueta_neo4j ` set ents)
        \<and> postgres ent (consulta_sql_relacion r) = Inr filas \<and> filas \<noteq> []
        \<and> (\<forall>f\<in>set filas. 2 \<le> length f) \<longrightarrow>
        ejecutar_migracion_automatica ent m
        = (Imprimir MsgUsandoAutomatica # plan_limpieza (obtener_opciones m)
           @ plan_entidades ent m
           @ Imprimir MsgFase2Relaciones
           # fst (para_cada (migrar_relacion ent (obtener_opciones m) ents) anteriores)
           @ [Imprimir (MsgCreandoRelaciones (tipo_relacion r)),
              Consulta (consulta_sql_relacion r)],
           Inl StopIteration))"
proof (intro conjI impI)
  show "cargar_mapeo (Contenido m) = ([], Inr (Some m))" by (simp add: cargar_mapeo_def)
next
  assume h: "entidades m = Some (previas @ e # posteriores)
        \<and> snd (para_cada (migrar_entidad ent (obtener_opciones m)) previas) = Inr ()
        \<and> mapeo_campos e = [] \<and> postgres ent (consulta_sql e) = Inr datos \<and> datos \<noteq> []"
  then have h1: "entidades m = Some (previas @ e # posteriores)"
    and h2: "snd (para_cada (migrar_entidad ent (obtener_opciones m)) previas) = Inr ()"
    and h3: "mapeo_campos e = []" and h4: "postgres ent (consulta_sql e) = Inr datos"
    and h5: "datos \<noteq> []"
    by simp_all
  note u = migrar_entidad_sin_campos[OF h3 h4 h5, where op = "obtener_opciones m"]
  from automatica_entidad_falla[OF h1 h2, of IndexError]
  show "ejecutar_migracion_automatica ent m
        = (Imprimir MsgUsandoAutomatica # plan_limpieza (obtener_opciones m)
           @ Imprimir MsgFase1Entidades
           # fst (para_cada (migrar_entidad ent (obtener_opciones m)) previas)
           @ [Imprimir (MsgMigrando (nombre e) (etiqueta_neo4j e)), Consulta (consulta_sql e)],
           Inl IndexError)"
    by (simp add: u)
next
  assume h: "entidades m = Some ents \<and> relaciones m = Some (anteriores @ r # siguientes)
        \<and> snd (para_cada (migrar_entidad ent (obtener_opciones m)) ents) = Inr ()
        \<and> snd (para_cada (migrar_relacion ent (obtener_opciones m) ents) anteriores) = Inr ()
        \<and> (nodo_origen r \<notin> etiqueta_neo4j ` set ents \<or> nodo_destino r \<notin> etiqueta_neo4j ` set ents)
        \<and> postgres ent (consulta_sql_relacion r) = Inr filas \<and> filas \<noteq> []
        \<and> (\<forall>f\<in>set filas. 2 \<le> length f)"
  then have h1: "entidades m = Some ents"
    and h2: "relaciones m = Some (anteriores @ r # siguientes)"
    and h3: "snd (para_cada (migrar_entidad ent (obtener_opciones m)) ents) = Inr ()"
    and h4: "snd (para_cada (migrar_relacion ent (obtener_opciones m) ents) anteriores) = Inr ()"
    and h5: "nodo_origen r \<notin> etiqueta_neo4j ` set ents \<or> nodo_destino r \<notin> etiqueta_neo4j ` set ents"
    and h6: "postgres ent (consulta_sql_relacion r) = Inr filas" and h7: "filas \<noteq> []"
    and h8: "\<forall>f\<in>set filas. 2 \<le> length f"
    by simp_all
  note u = migrar_relacion_sin_nodo[OF h5 h6 h7 h8, where op = "obtener_opciones m"]
  from automatica_relacion_falla[OF h1 h2 h3 h4, of StopIteration]
  show "ejecutar_migracion_automatica ent m
        = (Imprimir MsgUsandoAutomatica # plan_limpieza (obtener_opciones m)
           @ plan_entidades ent m
           @ Imprimir MsgFase2Relaciones
           # fst (para_cada (migrar_relacion ent (obtener_opciones m) ents) anteriores)
           @ [Imprimir (MsgCreandoRelaciones (tipo_relacion r)),
              Consulta (consulta_sql_relacion r)],
           Inl StopIteration)"
    by (simp add: u)
qed

theorem C4_sin_validacion_witness:
  "snd (ejecutar_migracion_automatica ej_entorno ej_mapeo_invalido) = Inl IndexError
   \<and> Imprimir (MsgNodosCreados ''Person'' 2)
       \<in> set (fst (ejecutar_migracion_automatica ej_entorno ej_mapeo_invalido))
   \<and> snd (ejecutar_migracion_automatica ej_entorno
            (ej_mapeo\<lparr>relaciones := Some [ej_amistad, ej_amistad\<lparr>nodo_destino := ''Ghost''\<rparr>]\<rparr>))
     = Inl StopIteration
   \<and> Imprimir (MsgRelacionesCreadas ''FRIEND_OF'' 1)
       \<in> set (fst (ejecutar_migracion_automatica ej_entorno
                     (ej_mapeo\<lparr>relaciones := Some [ej_amistad, ej_amistad\<lparr>nodo_destino := ''Ghost''\<rparr>]\<rparr>)))"
proof -
  let ?m = "ej_mapeo\<lparr>relaciones := Some [ej_amistad, ej_amistad\<lparr>nodo_destino := ''Ghost''\<rparr>]\<rparr>"
  let ?r = "ej_amistad\<lparr>nodo_destino := ''Ghost''\<rparr>"
  have a: "entidades ej_mapeo_invalido = Some ([ej_persona] @ ej_sin_campos # [])
        \<and> snd (para_cada (migrar_entidad ej_entorno (obtener_opciones ej_mapeo_invalido))
                 [ej_persona]) = Inr ()
        \<and> mapeo_campos ej_sin_campos = []
        \<and> postgres ej_entorno (consulta_sql ej_sin_campos) = Inr [[Entero 7]]
        \<and> [[Entero 7]] \<noteq> []"
    by (simp add: ej_mapeo_invalido_def ej_persona_traza nada_def)
       (simp add: ej_sin_campos_def ej_entorno_def ej_postgres_def)
  have b: "entidades ?m = Some [ej_persona] \<and> relaciones ?m = Some ([ej_amistad] @ ?r # [])
        \<and> snd (para_cada (migrar_entidad ej_entorno (obtener_opciones ?m)) [ej_persona]) = Inr ()
        \<and> snd (para_cada (migrar_relacion ej_entorno (obtener_opciones ?m) [ej_persona])
                 [ej_amistad]) = Inr ()
        \<and> (nodo_origen ?r \<notin> etiqueta_neo4j ` set [ej_persona]
             \<or> nodo_destino ?r \<notin> etiqueta_neo4j ` set [ej_persona])
        \<and> postgres ej_entorno (consulta_sql_relacion ?r) = Inr [[Entero 1, Entero 2]]
        \<and> [[Entero 1, Entero 2]] \<noteq> []
        \<and> (\<forall>f\<in>set [[Entero 1, Entero 2]]. 2 \<le> length f)"
    by (simp add: ej_mapeo_def ej_persona_traza ej_amistad_traza nada_def)
       (simp add: ej_amistad_def ej_persona_def ej_entorno_def ej_postgres_def)
  note c = C4_sin_validacion_al_cargar[where m = ej_mapeo_invalido and previas = "[ej_persona]"
         and e = ej_sin_campos and posteriores = "[]" and ent = ej_entorno
         and datos = "[[Entero 7]]" and ents = "[]" and anteriores = "[]" and r = ej_amistad
         and siguientes = "[]" and filas = "[]"]
  note d = C4_sin_validacion_al_cargar[where m = ?m and previas = "[]"
         and e = ej_sin_campos and posteriores = "[]" and ent = ej_entorno
         and datos = "[]" and ents = "[ej_persona]" and anteriores = "[ej_amistad]" and r = ?r
         and siguientes = "[]" and filas = "[[Entero 1, Entero 2]]"]
  from c a have A: "ejecutar_migracion_automatica ej_entorno ej_mapeo_invalido
        = (Imprimir MsgUsandoAutomatica # plan_limpieza (obtener_opciones ej_mapeo_invalido)
           @ Imprimir MsgFase1Entidades
           # fst (para_cada (migrar_entidad ej_entorno (obtener_opciones ej_mapeo_invalido))
                   [ej_persona])
           @ [Imprimir (MsgMigrando (nombre ej_sin_campos) (etiqueta_neo4j ej_sin_campos)),
              Consulta (consulta_sql ej_sin_campos)],
           Inl IndexError)"
    by blast
  from d b have B: "ejecutar_migracion_automatica ej_entorno ?m
        = (Imprimir MsgUsandoAutomatica # plan_limpieza (obtener_opciones ?m)
           @ plan_entidades ej_entorno ?m
           @ Imprimir MsgFase2Relaciones
           # fst (para_cada (migrar_relacion ej_entorno (obtener_opciones ?m) [ej_persona])
                   [ej_amistad])
           @ [Imprimir (MsgCreandoRelaciones (tipo_relacion ?r)),
              Consulta (consulta_sql_relacion ?r)],
           Inl StopIteration)"
    by blast
  have "snd (ejecutar_migracion_automatica ej_entorno ej_mapeo_invalido) = Inl IndexError"
    and "Imprimir (MsgNodosCreados ''Person'' 2)
           \<in> set (fst (ejecutar_migracion_automatica ej_entorno ej_mapeo_invalido))"
    unfolding A by (simp_all add: ej_persona_traza nada_def)
  moreover have "snd (ejecutar_migracion_automatica ej_entorno ?m) = Inl StopIteration"
    and "Imprimir (MsgRelacionesCreadas ''FRIEND_OF'' 1)
           \<in> set (fst (ejecutar_migracion_automatica ej_entorno ?m))"
    unfolding B by (simp_all add: ej_amistad_traza nada_def)
  ultimately show ?thesis by blast
qed

theorem C4_sin_validacion_counterexample:
  "snd (cargar_mapeo (Contenido ej_mapeo_invalido) :: (valor, mapeo_migracion option) accion)
   = Inr (Some ej_mapeo_invalido)
   \<and> snd (ejecutar_migracion_automatica ej_entorno ej_mapeo_invalido) = Inl IndexError
   \<and> Consulta ''SELECT id,name,email FROM users''
       \<in> set (fst (ejecutar_migracion_automatica ej_entorno ej_mapeo_invalido))
   \<and> Imprimir (MsgNodosCreados ''Person'' 2)
       \<in> set (fst (ejecutar_migracion_automatica ej_entorno ej_mapeo_invalido))"
proof -
  have h1: "entidades ej_mapeo_invalido = Some ([ej_persona] @ ej_sin_campos # [])"
    by (simp add: ej_mapeo_invalido_def)
  have h2: "snd (para_cada (migrar_entidad ej_entorno (obtener_opciones ej_mapeo_invalido))
                  [ej_persona]) = Inr ()"
    by (simp add: ej_persona_traza nada_def)
  have sc: "migrar_entidad ej_entorno op ej_sin_campos
            = ([Imprimir (MsgMigrando (nombre ej_sin_campos) (etiqueta_neo4j ej_sin_campos)),
                Consulta (consulta_sql ej_sin_campos)], Inl IndexError)" for op
    by (rule migrar_entidad_sin_campos[where datos = "[[Entero 7]]"])
       (simp_all add: ej_sin_campos_def ej_entorno_def ej_postgres_def)
  have h3: "snd (migrar_entidad ej_entorno (obtener_opciones ej_mapeo_invalido) ej_sin_campos)
            = Inl IndexError"
    by (simp add: sc)
  from automatica_entidad_falla[OF h1 h2 h3]
  show ?thesis
    by (simp add: cargar_mapeo_def ej_persona_traza nada_def sc)
qed

section \<open>Statement text and row data\<close>

lemma migrar_entidad_ejecutar:
  assumes "Ejecutar q p \<in> set (fst (migrar_entidad ent op e))"
  shows "generar_consulta_nodos (etiqueta_neo4j e) (mapeo_campos e) = Inr q
         \<and> (\<exists>datos. postgres ent (consulta_sql e) = Inr datos
              \<and> (\<exists>fila\<in>set datos. convertir_fila (mapeo_campos e) fila = Inr p))"
proof (cases "postgres ent (consulta_sql e)")
  case (Inl err)
  with assms show ?thesis by (simp add: migrar_entidad_falla)
next
  case pg: (Inr datos)
  show ?thesis
  proof (cases "datos = []")
    case True
    with assms pg show ?thesis by (simp add: migrar_entidad_vacio)
  next
    case False
    from assms show ?thesis
      unfolding migrar_entidad_datos[OF pg False]
      by (auto simp: pg convertir_datos_def split: sum.splits if_splits dest: mapear_miembro)
  qed
qed

lemma migrar_relacion_ejecutar:
  assumes "Ejecutar q p \<in> set (fst (migrar_relacion ent op ents r))"
  shows "generar_consulta_relacion ents r = Inr q
         \<and> (\<exists>datos. postgres ent (consulta_sql_relacion r) = Inr datos
              \<and> (\<exists>fila\<in>set datos. registro_relacion fila = Inr p))"
proof (cases "postgres ent (consulta_sql_relacion r)")
  case (Inl err)
  with assms show ?thesis by (simp add: migrar_relacion_falla)
next
  case pg: (Inr datos)
  show ?thesis
  proof (cases "datos = []")
    case True
    with assms pg show ?thesis by (simp add: migrar_relacion_vacio)
  next
    case False
    from assms show ?thesis
      unfolding migrar_relacion_datos[OF pg False]
      by (auto simp: pg split: sum.splits if_splits dest: mapear_miembro)
  qed
qed

text \<open>
  Claim C5. Every statement sent for a row of an entity (a relationship) has the text
  generated from the mapping alone, and the row travels as the parameters: the converted
  record. Two statements sent for the same mapping, for any rows of any two sources and
  under any options, have the same text.
\<close>

theorem C5_texto_de_consulta_sin_datos:
  "(Ejecutar q p \<in> set (fst (migrar_entidad ent op e)) \<longrightarrow>
      generar_consulta_nodos (etiqueta_neo4j e) (mapeo_campos e) = Inr q
      \<and> (\<exists>datos. postgres ent (consulta_sql e) = Inr datos
           \<and> (\<exists>fila\<in>set datos. convertir_fila (mapeo_campos e) fila = Inr p))
      \<and> (Ejecutar q' p' \<in> set (fst (migrar_entidad ent' op' e)) \<longrightarrow> q' = q))
   \<and> (Ejecutar q p \<in> set (fst (migrar_relacion ent op ents r)) \<longrightarrow>
      generar_consulta_relacion ents r = Inr q
      \<and> (\<exists>datos. postgres ent (consulta_sql_relacion r) = Inr datos
           \<and> (\<exists>fila\<in>set datos. registro_relacion fila = Inr p))
      \<and> (Ejecutar q' p' \<in> set (fst (migrar_relacion ent' op' ents r)) \<longrightarrow> q' = q))"
proof -
  have e1: "generar_consulta_nodos (etiqueta_neo4j e) (mapeo_campos e) = Inr q
            \<and> (\<exists>datos. postgres ent (consulta_sql e) = Inr datos
                 \<and> (\<exists>fila\<in>set datos. convertir_fila (mapeo_campos e) fila = Inr p))"
    if "Ejecutar q p \<in> set (fst (migrar_entidad ent op e))"
    using that by (rule migrar_entidad_ejecutar)
  have e2: "q' = q"
    if "Ejecutar q p \<in> set (fst (migrar_entidad ent op e))"
      and "Ejecutar q' p' \<in> set (fst (migrar_entidad ent' op' e))"
    using migrar_entidad_ejecutar[OF that(1)] migrar_entidad_ejecutar[OF that(2)] by simp
  have r1: "generar_consulta_relacion ents r = Inr q
            \<and> (\<exists>datos. postgres ent (consulta_sql_relacion r) = Inr datos
                 \<and> (\<exists>fila\<in>set datos. registro_relacion fila = Inr p))"
    if "Ejecutar q p \<in> set (fst (migrar_relacion ent op ents r))"
    using that by (rule migrar_relacion_ejecutar)
  have r2: "q' = q"
    if "Ejecutar q p \<in> set (fst (migrar_relacion ent op ents r))"
      and "Ejecutar q' p' \<in> set (fst (migrar_relacion ent' op' ents r))"
    using migrar_relacion_ejecutar[OF that(1)] migrar_relacion_ejecutar[OF that(2)] by simp
  from e1 e2 r1 r2 show ?thesis by blast
qed

theorem C5_texto_de_consulta_witness:
  "Ejecutar ej_consulta_persona [(''id'', Entero 2), (''name'', Texto ''B''), (''email'', Texto ''b@x'')]
     \<in> set (fst (migrar_entidad ej_entorno ej_opciones ej_persona))
   \<and> generar_consulta_nodos (etiqueta_neo4j ej_persona) (mapeo_campos ej_persona)
     = Inr ej_consulta_persona
   \<and> Ejecutar ej_consulta_amistad [(''id_origen'', Entero 1), (''id_destino'', Entero 2)]
     \<in> set (fst (migrar_relacion ej_entorno ej_opciones [ej_persona] ej_amistad))
   \<and> generar_consulta_relacion [ej_persona] ej_amistad = Inr ej_consulta_amistad"
proof -
  have a: "Ejecutar ej_consulta_persona
             [(''id'', Entero 2), (''name'', Texto ''B''), (''email'', Texto ''b@x'')]
           \<in> set (fst (migrar_entidad ej_entorno ej_opciones ej_persona))"
    by (simp add: ej_persona_traza)
  have b: "Ejecutar ej_consulta_amistad [(''id_origen'', Entero 1), (''id_destino'', Entero 2)]
           \<in> set (fst (migrar_relacion ej_entorno ej_opciones [ej_persona] ej_amistad))"
    by (simp add: ej_amistad_traza)
  from a b
    C5_texto_de_consulta_sin_datos[where ent = ej_entorno and op = ej_opciones
      and e = ej_persona and q = ej_consulta_persona
      and p = "[(''id'', Entero 2), (''name'', Texto ''B''), (''email'', Texto ''b@x'')]"
      and ents = "[]" and r = ej_amistad and ent' = ej_entorno and op' = ej_opciones
      and q' = ej_consulta_persona
      and p' = "[(''id'', Entero 1), (''name'', Texto ''A''), (''email'', Texto ''a@x'')]"]
    C5_texto_de_consulta_sin_datos[where ent = ej_entorno and op = ej_opciones
      and e = ej_persona and q = ej_consulta_amistad
      and p = "[(''id_origen'', Entero 1), (''id_destino'', Entero 2)]"
      and ents = "[ej_persona]" and r = ej_amistad and ent' = ej_entorno and op' = ej_opciones
      and q' = ej_consulta_amistad
      and p' = "[(''id_origen'', Entero 1), (''id_destino'', Entero 2)]"]
  show ?thesis by blast
qed

section \<open>The order of the phases on the sample\<close>

lemma ej_automatica_ok:
  "snd (ejecutar_migracion_automatica ej_entorno ej_mapeo) = Inr MigracionAutomaticaCompletada"
proof -
  have op: "obtener_opciones ej_mapeo = ej_opciones"
    by (simp add: obtener_opciones_def ej_mapeo_def)
  have e: "fase_entidades ej_entorno ej_mapeo
           = (fst (fase_entidades ej_entorno ej_mapeo), Inr ())"
    by (simp add: fase_entidades_def leer_entidades_def ej_mapeo_def ej_persona_traza nada_def)
  have r: "fase_relaciones ej_entorno ej_mapeo
           = (fst (fase_relaciones ej_entorno ej_mapeo), Inr ())"
    by (simp add: fase_relaciones_def leer_relaciones_def leer_entidades_def ej_mapeo_def
        ej_amistad_traza nada_def)
  have i: "fase_indices ej_mapeo = ([], Inr ())"
    by (simp add: fase_indices_def op ej_opciones_def nada_def)
  have s: "fase_estadisticas ej_entorno ej_mapeo
           = (fst (fase_estadisticas ej_entorno ej_mapeo), Inr ())"
    by (simp add: fase_estadisticas_def leer_relaciones_def leer_entidades_def ej_mapeo_def
        contar_nodos_def contar_relaciones_def nada_def imprimir_def Let_def)
  show ?thesis
    unfolding ejecutar_migracion_automatica_def
    by (simp add: fase_limpieza_eq puro_def) (subst e, simp, subst r, simp, subst i, simp,
        subst s, simp)
qed

theorem C6_orden_de_fases_witness:
  "snd (ejecutar_migracion_automatica ej_entorno ej_mapeo) = Inr MigracionAutomaticaCompletada
   \<and> prefix (fst (ejecutar_migracion_automatica ej_entorno ej_mapeo))
        (plan_automatico ej_entorno ej_mapeo)
   \<and> fst (ejecutar_migracion_automatica ej_entorno ej_mapeo) = plan_automatico ej_entorno ej_mapeo"
  using C6_orden_de_fases[of ej_entorno ej_mapeo] ej_automatica_ok by blast

section \<open>Mode selection\<close>

lemma manual_ok:
  assumes "postgres ent sql_usuarios = Inr usuarios"
      and "mapear registro_usuario usuarios = Inr usuarios_dict"
      and "postgres ent sql_publicaciones = Inr publicaciones"
      and "mapear registro_publicacion publicaciones = Inr publicaciones_dict"
      and "postgres ent sql_amistades = Inr amistades"
      and "mapear registro_amistad amistades = Inr amistades_dict"
      and "postgres ent sql_publicaciones_autor = Inr autores"
      and "mapear registro_autor autores = Inr autores_dict"
  shows "ejecutar_migracion_manual ent
         = ([Imprimir MsgUsandoManual,
             Imprimir MsgManualFase1Usuarios, Consulta sql_usuarios]
            @ map (Ejecutar consulta_usuarios) usuarios_dict
            @ [Imprimir (MsgNodosCreados ''Persona'' (length usuarios_dict)),
               Imprimir MsgManualFase2Publicaciones, Consulta sql_publicaciones]
            @ map (Ejecutar consulta_posts) publicaciones_dict
            @ [Imprimir (MsgNodosCreados ''Post'' (length publicaciones_dict)),
               Imprimir MsgManualFase3Amistades, Consulta sql_amistades]
            @ map (Ejecutar consulta_amistad) amistades_dict
            @ [Imprimir (MsgRelacionesCreadas ''AMIGO_DE'' (length amistades_dict)),
               Imprimir MsgManualFase4Autores, Consulta sql_publicaciones_autor]
            @ map (Ejecutar consulta_publico) autores_dict
            @ [Imprimir (MsgRelacionesCreadas ''PUBLICO'' (length autores_dict)),
               Imprimir MsgManualCompletada],
            Inr MigracionCompletada)"
  by (simp add: ejecutar_migracion_manual_def manual_fase1_def manual_fase2_def manual_fase3_def
      manual_fase4_def obtener_datos_postgresql_def crear_nodos_neo4j_eq
      crear_relaciones_neo4j_eq assms puro_def)

lemma ej_postgres_manual_tablas:
  "postgres ej_entorno_manual sql_usuarios = Inr [[Entero 1, Texto ''A'', Texto ''a@x'']]"
  "postgres ej_entorno_manual sql_publicaciones = Inr [[Entero 5, Texto ''hola'']]"
  "postgres ej_entorno_manual sql_amistades = Inr []"
  "postgres ej_entorno_manual sql_publicaciones_autor = Inr [[Entero 1, Entero 5]]"
  by (simp_all add: ej_entorno_manual_def ej_postgres_manual_def sql_usuarios_def
      sql_publicaciones_def sql_amistades_def sql_publicaciones_autor_def)

lemma ej_manual_registros:
  "mapear registro_usuario [[Entero 1, Texto ''A'', Texto ''a@x'']]
   = Inr [[(''id'', Entero 1), (''nombre'', Texto ''A''), (''email'', Texto ''a@x'')]]"
  "mapear registro_publicacion [[Entero 5, Texto ''hola'']]
   = Inr [[(''id'', Entero 5), (''texto'', Texto ''hola'')]]"
  "mapear registro_amistad ([] :: valor list list) = Inr []"
  "mapear registro_autor [[Entero 1, Entero 5]]
   = Inr [[(''autor'', Entero 1), (''post'', Entero 5)]]"
  by (simp_all add: registro_usuario_def registro_publicacion_def registro_amistad_def
      registro_autor_def indice_def ligar_def)

text \<open>
  Claim C8. A missing mapping file is not an error: loading prints a notice and gives
  None, and the manual mode runs. A present file with a non-empty object selects the
  declarative mode. A present file that holds the empty object is loaded too, but the
  run it starts is the manual one, event for event the run of a missing file: the test
  of line 156 is on the truth value of the loaded object, not on the presence of the
  file that the docstring of the method names.
\<close>

theorem C8_objeto_vacio_selecciona_modo_manual:
  "(cargar_mapeo Ausente :: (valor, mapeo_migracion option) accion)
   = ([Imprimir MsgMapeoNoEncontrado], Inr None)
   \<and> Imprimir MsgUsandoManual \<in> set (fst (ejecutar_migracion ej_entorno_manual None))
   \<and> Imprimir MsgUsandoAutomatica \<in> set (fst (ejecutar_migracion ej_entorno (Some ej_mapeo)))
   \<and> (cargar_mapeo (Contenido mapeo_vacio) :: (valor, mapeo_migracion option) accion)
     = ([], Inr (Some mapeo_vacio))
   \<and> ejecutar_migracion ej_entorno_manual (Some mapeo_vacio)
     = ejecutar_migracion ej_entorno_manual None
   \<and> Imprimir MsgUsandoManual \<in> set (fst (ejecutar_migracion ej_entorno_manual (Some mapeo_vacio)))
   \<and> Imprimir MsgUsandoAutomatica
       \<notin> set (fst (ejecutar_migracion ej_entorno_manual (Some mapeo_vacio)))"
proof -
  have v: "\<not> verdadero (Some mapeo_vacio)" "\<not> verdadero None"
    by (simp_all add: verdadero_def mapeo_vacio_def)
  have m: "ejecutar_migracion ej_entorno_manual (Some mapeo_vacio)
           = (Imprimir MsgIniciandoMigracion # fst (ejecutar_migracion_manual ej_entorno_manual),
              snd (ejecutar_migracion_manual ej_entorno_manual))"
          "ejecutar_migracion ej_entorno_manual None
           = (Imprimir MsgIniciandoMigracion # fst (ejecutar_migracion_manual ej_entorno_manual),
              snd (ejecutar_migracion_manual ej_entorno_manual))"
    using v by (simp_all add: ejecutar_migracion_def)
  note t = manual_ok[OF ej_postgres_manual_tablas(1) ej_manual_registros(1)
              ej_postgres_manual_tablas(2) ej_manual_registros(2)
              ej_postgres_manual_tablas(3) ej_manual_registros(3)
              ej_postgres_manual_tablas(4) ej_manual_registros(4)]
  have au: "Imprimir MsgUsandoAutomatica
              \<in> set (fst (ejecutar_migracion ej_entorno (Some ej_mapeo)))"
    by (simp add: ejecutar_migracion_def verdadero_def ej_mapeo_def
        ejecutar_migracion_automatica_def)
  show ?thesis
    by (simp add: cargar_mapeo_def m t au)
qed

section \<open>The exit code\<close>

lemma main_consola_codigo_cero:
  assumes "\<not> conexion_falla ent"
      and "\<forall>n. snd (ejecutar_migracion ent M) \<noteq> Inl (SystemExit n)"
  shows "snd (main_consola ent M) = 0"
proof (cases "ejecutar_migracion ent M")
  case (Pair evs r)
  with assms show ?thesis
    by (cases r)
       (auto simp: main_consola_def migrador_init_def limpiar_neo4j_def nada_def imprimir_def
          split: error.splits)
qed

lemma main_consola_sin_conexion: "conexion_falla ent \<Longrightarrow> main_consola ent M = ([Imprimir MsgErrorConexion], 1)"
  by (simp add: main_consola_def migrador_init_def puro_def)

text \<open>
  Claim C9. A run whose first source query raises ends with that exception, and the
  console entry point still exits with code 0; only a failed connection exits with
  code 1.
\<close>

theorem C9_codigo_de_salida_tras_error:
  "snd (ejecutar_migracion ej_entorno (Some ej_mapeo_dos))
   = Inl (ErrorPostgres ''relation does not exist'')
   \<and> snd (main_consola ej_entorno (Some ej_mapeo_dos)) = 0
   \<and> snd (main_consola (ej_entorno\<lparr>conexion_falla := True\<rparr>) (Some ej_mapeo_dos)) = 1"
proof -
  have h1: "entidades ej_mapeo_dos = Some ([] @ ej_post # [ej_persona])"
    by (simp add: ej_mapeo_dos_def)
  have h2: "snd (para_cada (migrar_entidad ej_entorno (obtener_opciones ej_mapeo_dos)) []) = Inr ()"
    by (simp add: nada_def)
  have h3: "snd (migrar_entidad ej_entorno (obtener_opciones ej_mapeo_dos) ej_post)
            = Inl (ErrorPostgres ''relation does not exist'')"
    by (simp add: ej_post_falla)
  have a: "snd (ejecutar_migracion_automatica ej_entorno ej_mapeo_dos)
           = Inl (ErrorPostgres ''relation does not exist'')"
    using automatica_entidad_falla[OF h1 h2 h3] by simp
  have v: "verdadero (Some ej_mapeo_dos)" by (simp add: verdadero_def ej_mapeo_dos_def)
  have e: "snd (ejecutar_migracion ej_entorno (Some ej_mapeo_dos))
           = Inl (ErrorPostgres ''relation does not exist'')"
    using v a by (simp add: ejecutar_migracion_def)
  have c: "\<not> conexion_falla ej_entorno" by (simp add: ej_entorno_def)
  have "snd (main_consola ej_entorno (Some ej_mapeo_dos)) = 0"
    by (rule main_consola_codigo_cero[OF c]) (simp add: e)
  moreover have "snd (main_consola (ej_entorno\<lparr>conexion_falla := True\<rparr>) (Some ej_mapeo_dos)) = 1"
    by (simp add: main_consola_sin_conexion)
  ultimately show ?thesis using e by simp
qed

end
